theory Spec2Isabelle
  imports Complex_Main
begin

section \<open>Values, exceptions and loop control\<close>

text \<open>
  The solver of \<^verbatim>\<open>ZOF_CLI.py\<close> computes with floats. The embedding reads every finite
  float as a real number (exact arithmetic), and every function handle as a total map
  from reals to reals, as the specification's data model does. What the embedding keeps
  from Python is the control flow: the early \<^verbatim>\<open>return\<close> inside a loop, what a division by
  zero does, and the exception raised by reading a local variable that no loop pass has
  bound.
\<close>

datatype error = ZeroDivisionError | UnboundLocalError

text \<open>
  The float type of the values a function handle returns. \<^verbatim>\<open>get_function\<close> evaluates the
  expression with \<^verbatim>\<open>x\<close> and \<^verbatim>\<open>np\<close> in scope. The starting values are built-in floats, so an
  arithmetic expression such as \<^verbatim>\<open>x**2 - 2\<close> returns built-in floats, and so does every
  value computed from them; an expression that calls a \<^verbatim>\<open>numpy\<close> function, such as
  \<^verbatim>\<open>np.cos(x)\<close>, returns \<^verbatim>\<open>numpy.float64\<close> values, and every value computed from one of those
  is a \<^verbatim>\<open>numpy.float64\<close> again. The two types agree on every operation the methods use,
  except on division by zero. One float type holds for a whole run: an expression whose
  values change type from one argument to the next is not covered.
\<close>

datatype float_kind = PyFloat | NumpyFloat

text \<open>
  The result of \<^verbatim>\<open>x / y\<close>. A zero divisor raises when both operands are built-in floats.
  When an operand is a \<^verbatim>\<open>numpy.float64\<close> the division prints a warning, raises nothing and
  gives an infinity or a NaN, which is not a real number: \<open>Inf_or_NaN\<close>.
\<close>

datatype quotient = Quotient real | Raises error | Inf_or_NaN

definition py_div :: "float_kind \<Rightarrow> real \<Rightarrow> real \<Rightarrow> quotient" where
  "py_div kind x y =
     (if y = 0 then (case kind of PyFloat \<Rightarrow> Raises ZeroDivisionError | NumpyFloat \<Rightarrow> Inf_or_NaN)
      else Quotient (x / y))"

text \<open>One row of the log: \<^verbatim>\<open>[i + 1, estimate, f(estimate), error measure]\<close>.\<close>

type_synonym iteration = "nat \<times> real \<times> real \<times> real"

text \<open>The returned triple \<^verbatim>\<open>root, error, iterations\<close>; each position may be \<^verbatim>\<open>None\<close>.\<close>

type_synonym run_result = "real option \<times> real option \<times> iteration list option"

text \<open>
  What one pass of a loop body does: fall through to the next pass with the updated
  locals, leave the function with \<^verbatim>\<open>return\<close>, raise, or bind the new estimate to an
  infinity or a NaN (\<open>NonFinite\<close>). After \<open>NonFinite\<close> the program goes on: every later
  estimate is again an infinity or a NaN, every later division is a \<^verbatim>\<open>numpy\<close> division and
  raises nothing, and, as long as the handle itself raises nothing on such a value (no
  \<^verbatim>\<open>numpy\<close> function does), the call ends by returning a populated triple whose root is an
  infinity or a NaN. These values are not reals, so the embedding records that the run
  has left the reals at this pass and follows it no further.
\<close>

datatype ('s, 'r) flow = Continue 's | Return 'r | Raise error | NonFinite

text \<open>
  How a call ends: with an uncaught exception, by returning a triple of reals (or of
  \<^verbatim>\<open>None\<close>), or \<open>Non_finite\<close>: a division by zero on \<^verbatim>\<open>numpy.float64\<close> values raised
  nothing and the run went on with an infinity or a NaN.
\<close>

datatype outcome = Raised error | Returned run_result | Non_finite

text \<open>
  \<^verbatim>\<open>for i in range(i0, i0 + n): body\<close>, the body acting on the locals \<open>s\<close>. The result
  is \<open>Continue s'\<close> when all \<open>n\<close> passes fall through, leaving the locals \<open>s'\<close>.
\<close>

fun for_range :: "nat \<Rightarrow> nat \<Rightarrow> (nat \<Rightarrow> 's \<Rightarrow> ('s, 'r) flow) \<Rightarrow> 's \<Rightarrow> ('s, 'r) flow" where
  "for_range 0 i body s = Continue s"
| "for_range (Suc n) i body s =
     (case body i s of
        Continue s' \<Rightarrow> for_range n (Suc i) body s'
      | Return r \<Rightarrow> Return r
      | Raise e \<Rightarrow> Raise e
      | NonFinite \<Rightarrow> NonFinite)"

text \<open>
  The number of passes \<^verbatim>\<open>for i in range(i0, i0 + n)\<close> starts, up to the pass that returns,
  raises or leaves the reals: it counts that pass and every pass before it.
\<close>

fun passes :: "nat \<Rightarrow> nat \<Rightarrow> (nat \<Rightarrow> 's \<Rightarrow> ('s, 'r) flow) \<Rightarrow> 's \<Rightarrow> nat" where
  "passes 0 i body s = 0"
| "passes (Suc n) i body s =
     (case body i s of
        Continue s' \<Rightarrow> Suc (passes n (Suc i) body s')
      | Return r \<Rightarrow> Suc 0
      | Raise e \<Rightarrow> Suc 0
      | NonFinite \<Rightarrow> Suc 0)"

text \<open>
  A loop over \<^verbatim>\<open>range(n)\<close> followed by the function's last statement \<open>exit\<close>, which
  runs only when every pass fell through. An exception leaves the function.
\<close>

definition run_loop :: "nat \<Rightarrow> (nat \<Rightarrow> 's \<Rightarrow> ('s, run_result) flow) \<Rightarrow> ('s \<Rightarrow> outcome) \<Rightarrow> 's \<Rightarrow> outcome" where
  "run_loop n body exit s =
     (case for_range n 0 body s of
        Return r \<Rightarrow> Returned r
      | Raise e \<Rightarrow> Raised e
      | NonFinite \<Rightarrow> Non_finite
      | Continue s' \<Rightarrow> exit s')"

section \<open>The six methods\<close>

subsection \<open>Bisection\<close>

text \<open>
  The locals of the loop are \<open>(a, b, c, iterations)\<close>; \<open>c\<close> is \<open>None\<close> until a pass
  binds it. The only division is by the literal 2.
\<close>

type_synonym bracket_state = "real \<times> real \<times> real option \<times> iteration list"

fun bisection_body :: "(real \<Rightarrow> real) \<Rightarrow> real \<Rightarrow> nat \<Rightarrow> bracket_state \<Rightarrow> (bracket_state, run_result) flow" where
  "bisection_body f tol i (a, b, c0, iterations) =
     (let c = (a + b) / 2;
          iterations' = iterations @ [(i + 1, c, f c, \<bar>b - a\<bar>)]
      in if \<bar>f c\<bar> < tol then Return (Some c, Some \<bar>b - a\<bar>, Some iterations')
         else if f a * f c < 0 then Continue (a, c, Some c, iterations')
         else Continue (c, b, Some c, iterations'))"

text \<open>
  The statement after the loop, \<^verbatim>\<open>return c, abs(b - a), iterations\<close>, shared by both
  bracketing methods.
\<close>

fun bracket_exit :: "bracket_state \<Rightarrow> outcome" where
  "bracket_exit (a, b, None, iterations) = Raised UnboundLocalError"
| "bracket_exit (a, b, Some c, iterations) = Returned (Some c, Some \<bar>b - a\<bar>, Some iterations)"

text \<open>The first component of the result is what the call printed.\<close>

definition bisection :: "(real \<Rightarrow> real) \<Rightarrow> real \<Rightarrow> real \<Rightarrow> real \<Rightarrow> int \<Rightarrow> string list \<times> outcome" where
  "bisection f a b tol max_iter =
     (if f a * f b \<ge> 0 then ([''Bisection method fails.''], Returned (None, None, None))
      else ([], run_loop (nat max_iter) (bisection_body f tol) bracket_exit (a, b, None, [])))"

subsection \<open>Regula falsi\<close>

text \<open>
  The methods that divide by a difference of function values take the float type
  \<open>kind\<close> of those values next to the handle.
\<close>

fun regula_falsi_body :: "float_kind \<Rightarrow> (real \<Rightarrow> real) \<Rightarrow> real \<Rightarrow> nat \<Rightarrow> bracket_state \<Rightarrow> (bracket_state, run_result) flow" where
  "regula_falsi_body kind f tol i (a, b, c0, iterations) =
     (case py_div kind (a * f b - b * f a) (f b - f a) of
        Raises e \<Rightarrow> Raise e
      | Inf_or_NaN \<Rightarrow> NonFinite
      | Quotient c \<Rightarrow>
          (let iterations' = iterations @ [(i + 1, c, f c, \<bar>b - a\<bar>)]
           in if \<bar>f c\<bar> < tol then Return (Some c, Some \<bar>b - a\<bar>, Some iterations')
              else if f a * f c < 0 then Continue (a, c, Some c, iterations')
              else Continue (c, b, Some c, iterations')))"

definition regula_falsi :: "float_kind \<Rightarrow> (real \<Rightarrow> real) \<Rightarrow> real \<Rightarrow> real \<Rightarrow> real \<Rightarrow> int \<Rightarrow> string list \<times> outcome" where
  "regula_falsi kind f a b tol max_iter =
     (if f a * f b \<ge> 0 then ([''Regula Falsi method fails.''], Returned (None, None, None))
      else ([], run_loop (nat max_iter) (regula_falsi_body kind f tol) bracket_exit (a, b, None, [])))"

subsection \<open>Secant\<close>

text \<open>The locals are \<open>(x0, x1, x2, iterations)\<close>; \<open>x2\<close> is \<open>None\<close> until a pass binds it.\<close>

type_synonym secant_state = "real \<times> real \<times> real option \<times> iteration list"

fun secant_body :: "float_kind \<Rightarrow> (real \<Rightarrow> real) \<Rightarrow> real \<Rightarrow> nat \<Rightarrow> secant_state \<Rightarrow> (secant_state, run_result) flow" where
  "secant_body kind f tol i (x0, x1, x2', iterations) =
     (case py_div kind (f x1 * (x1 - x0)) (f x1 - f x0) of
        Raises e \<Rightarrow> Raise e
      | Inf_or_NaN \<Rightarrow> NonFinite
      | Quotient q \<Rightarrow>
          (let x2 = x1 - q;
               iterations' = iterations @ [(i + 1, x2, f x2, \<bar>x2 - x1\<bar>)]
           in if \<bar>f x2\<bar> < tol then Return (Some x2, Some \<bar>x2 - x1\<bar>, Some iterations')
              else Continue (x1, x2, Some x2, iterations')))"

fun secant_exit :: "secant_state \<Rightarrow> outcome" where
  "secant_exit (x0, x1, None, iterations) = Raised UnboundLocalError"
| "secant_exit (x0, x1, Some x2, iterations) = Returned (Some x2, Some \<bar>x2 - x1\<bar>, Some iterations)"

definition secant :: "float_kind \<Rightarrow> (real \<Rightarrow> real) \<Rightarrow> real \<Rightarrow> real \<Rightarrow> real \<Rightarrow> int \<Rightarrow> outcome" where
  "secant kind f x0 x1 tol max_iter =
     run_loop (nat max_iter) (secant_body kind f tol) secant_exit (x0, x1, None, [])"

subsection \<open>Newton-Raphson, fixed-point iteration, modified secant\<close>

text \<open>
  The three one-point methods keep the locals \<open>(x0, x1, iterations)\<close>, with \<open>x1\<close> unbound
  before the first pass, and end with the same statement
  \<^verbatim>\<open>return x1, abs(x1 - x0), iterations\<close>. In Newton-Raphson \<open>kind\<close> is \<open>NumpyFloat\<close> as
  soon as the values of \<open>f\<close> or of \<open>df\<close> are \<^verbatim>\<open>numpy.float64\<close>. Fixed-point iteration
  does not divide.
\<close>

type_synonym point_state = "real \<times> real option \<times> iteration list"

fun point_exit :: "point_state \<Rightarrow> outcome" where
  "point_exit (x0, None, iterations) = Raised UnboundLocalError"
| "point_exit (x0, Some x1, iterations) = Returned (Some x1, Some \<bar>x1 - x0\<bar>, Some iterations)"

fun newton_raphson_body :: "float_kind \<Rightarrow> (real \<Rightarrow> real) \<Rightarrow> (real \<Rightarrow> real) \<Rightarrow> real \<Rightarrow> nat \<Rightarrow> point_state \<Rightarrow> (point_state, run_result) flow" where
  "newton_raphson_body kind f df tol i (x0, x1', iterations) =
     (case py_div kind (f x0) (df x0) of
        Raises e \<Rightarrow> Raise e
      | Inf_or_NaN \<Rightarrow> NonFinite
      | Quotient q \<Rightarrow>
          (let x1 = x0 - q;
               iterations' = iterations @ [(i + 1, x1, f x1, \<bar>x1 - x0\<bar>)]
           in if \<bar>f x1\<bar> < tol then Return (Some x1, Some \<bar>x1 - x0\<bar>, Some iterations')
              else Continue (x1, Some x1, iterations')))"

definition newton_raphson :: "float_kind \<Rightarrow> (real \<Rightarrow> real) \<Rightarrow> (real \<Rightarrow> real) \<Rightarrow> real \<Rightarrow> real \<Rightarrow> int \<Rightarrow> outcome" where
  "newton_raphson kind f df x0 tol max_iter =
     run_loop (nat max_iter) (newton_raphson_body kind f df tol) point_exit (x0, None, [])"

fun fixed_point_iteration_body :: "(real \<Rightarrow> real) \<Rightarrow> real \<Rightarrow> nat \<Rightarrow> point_state \<Rightarrow> (point_state, run_result) flow" where
  "fixed_point_iteration_body g tol i (x0, x1', iterations) =
     (let x1 = g x0;
          iterations' = iterations @ [(i + 1, x1, x1 - g x1, \<bar>x1 - x0\<bar>)]
      in if \<bar>x1 - x0\<bar> < tol then Return (Some x1, Some \<bar>x1 - x0\<bar>, Some iterations')
         else Continue (x1, Some x1, iterations'))"

definition fixed_point_iteration :: "(real \<Rightarrow> real) \<Rightarrow> real \<Rightarrow> real \<Rightarrow> int \<Rightarrow> outcome" where
  "fixed_point_iteration g x0 tol max_iter =
     run_loop (nat max_iter) (fixed_point_iteration_body g tol) point_exit (x0, None, [])"

fun modified_secant_body :: "float_kind \<Rightarrow> (real \<Rightarrow> real) \<Rightarrow> real \<Rightarrow> real \<Rightarrow> nat \<Rightarrow> point_state \<Rightarrow> (point_state, run_result) flow" where
  "modified_secant_body kind f delta tol i (x0, x1', iterations) =
     (case py_div kind (f x0 * delta * x0) (f (x0 + delta * x0) - f x0) of
        Raises e \<Rightarrow> Raise e
      | Inf_or_NaN \<Rightarrow> NonFinite
      | Quotient q \<Rightarrow>
          (let x1 = x0 - q;
               iterations' = iterations @ [(i + 1, x1, f x1, \<bar>x1 - x0\<bar>)]
           in if \<bar>f x1\<bar> < tol then Return (Some x1, Some \<bar>x1 - x0\<bar>, Some iterations')
              else Continue (x1, Some x1, iterations')))"

definition modified_secant :: "float_kind \<Rightarrow> (real \<Rightarrow> real) \<Rightarrow> real \<Rightarrow> real \<Rightarrow> real \<Rightarrow> int \<Rightarrow> outcome" where
  "modified_secant kind f x0 delta tol max_iter =
     run_loop (nat max_iter) (modified_secant_body kind f delta tol) point_exit (x0, None, [])"

section \<open>The command-line entry point\<close>

text \<open>
  The parsed command line. The expression texts are read through \<^verbatim>\<open>get_function\<close>, an
  opaque evaluator, so they stand here as the functions they denote; an option that
  was not given is \<open>None\<close>.
\<close>

record args =
  args_method :: string
  args_expression :: "real \<Rightarrow> real"
  args_params :: "real list"
  args_tol :: real
  args_max_iter :: int
  args_delta :: real
  args_df :: "(real \<Rightarrow> real) option"
  args_g :: "(real \<Rightarrow> real) option"

text \<open>
  The dispatch of the \<^verbatim>\<open>__main__\<close> block: what it prints, and how the call it makes
  ends. \<open>kind\<close> is the float type of the values of the expressions on the command line.
  No call is wrapped in an exception handler, so an exception raised by a method ends
  the block, and with it the process. The table the block prints afterwards for a
  populated triple is left out.
\<close>

definition main_block :: "float_kind \<Rightarrow> args \<Rightarrow> string list \<times> outcome" where
  "main_block kind args =
     (let f = args_expression args in
      if args_method args = ''bisection'' then
        (case args_params args of
           [a, b] \<Rightarrow> bisection f a b (args_tol args) (args_max_iter args)
         | _ \<Rightarrow> ([''Bisection method requires two parameters: a and b.''], Returned (None, None, None)))
      else if args_method args = ''regula_falsi'' then
        (case args_params args of
           [a, b] \<Rightarrow> regula_falsi kind f a b (args_tol args) (args_max_iter args)
         | _ \<Rightarrow> ([''Regula Falsi method requires two parameters: a and b.''], Returned (None, None, None)))
      else if args_method args = ''secant'' then
        (case args_params args of
           [x0, x1] \<Rightarrow> ([], secant kind f x0 x1 (args_tol args) (args_max_iter args))
         | _ \<Rightarrow> ([''Secant method requires two parameters: x0 and x1.''], Returned (None, None, None)))
      else if args_method args = ''newton_raphson'' then
        (case args_params args of
           [x0] \<Rightarrow>
             (case args_df args of
                None \<Rightarrow> ([''Newton-Raphson method requires the derivative of the function (--df).''],
                         Returned (None, None, None))
              | Some df \<Rightarrow> ([], newton_raphson kind f df x0 (args_tol args) (args_max_iter args)))
         | _ \<Rightarrow> ([''Newton-Raphson method requires one parameter: x0.''], Returned (None, None, None)))
      else if args_method args = ''fixed_point'' then
        (case args_params args of
           [x0] \<Rightarrow>
             (case args_g args of
                None \<Rightarrow> ([''Fixed Point Iteration method requires the g(x) function (--g).''],
                         Returned (None, None, None))
              | Some g \<Rightarrow> ([], fixed_point_iteration g x0 (args_tol args) (args_max_iter args)))
         | _ \<Rightarrow> ([''Fixed Point Iteration method requires one parameter: x0.''], Returned (None, None, None)))
      else if args_method args = ''modified_secant'' then
        (case args_params args of
           [x0] \<Rightarrow> ([], modified_secant kind f x0 (args_delta args) (args_tol args) (args_max_iter args))
         | _ \<Rightarrow> ([''Modified Secant method requires one parameter: x0.''], Returned (None, None, None)))
      else ([], Returned (None, None, None)))"

section \<open>Predicates used in the proofs\<close>


text \<open>A populated triple whose log has \<open>k\<close> rows and ends with the returned root.\<close>

definition faithful :: "nat \<Rightarrow> run_result \<Rightarrow> bool" where
  "faithful k r =
     (case r of
        (Some x, Some e, Some rows) \<Rightarrow> length rows = k \<and> rows \<noteq> [] \<and> fst (snd (last rows)) = x
      | _ \<Rightarrow> False)"

section \<open>Facts about the loop\<close>

lemma for_range_add:
  "for_range (k + m) i body s =
     (case for_range k i body s of
        Continue s' \<Rightarrow> for_range m (i + k) body s'
      | Return r \<Rightarrow> Return r
      | Raise e \<Rightarrow> Raise e
      | NonFinite \<Rightarrow> NonFinite)"
  by (induction k arbitrary: i s) (auto split: flow.splits)

lemma for_range_Continue_inv:
  assumes step: "\<And>j t t'. I j t \<Longrightarrow> body j t = Continue t' \<Longrightarrow> I (Suc j) t'"
  shows "I i s \<Longrightarrow> for_range n i body s = Continue s' \<Longrightarrow> I (i + n) s'"
proof (induction n arbitrary: i s)
  case 0
  then show ?case by simp
next
  case (Suc n)
  from Suc.prems(2) obtain t where t: "body i s = Continue t" "for_range n (Suc i) body t = Continue s'"
    by (auto split: flow.splits)
  from step [OF Suc.prems(1) t(1)] have "I (Suc i) t" .
  from Suc.IH [OF this t(2)] show ?case by simp
qed


lemma passes_le: "passes n i body s \<le> n"
  by (induction n arbitrary: i s) (auto split: flow.splits)

lemma for_range_Return_cases:
  assumes step: "\<And>j t t'. I j t \<Longrightarrow> body j t = Continue t' \<Longrightarrow> I (Suc j) t'"
  shows "I i s \<Longrightarrow> for_range n i body s = Return r \<Longrightarrow>
         \<exists>j t. j < n \<and> I (i + j) t \<and> for_range j i body s = Continue t \<and> body (i + j) t = Return r \<and> passes n i body s = Suc j"
proof (induction n arbitrary: i s)
  case 0
  then show ?case by simp
next
  case (Suc n)
  show ?case
  proof (cases "body i s")
    case (Continue t)
    with Suc.prems(2) have run: "for_range n (Suc i) body t = Return r" by simp
    from step [OF Suc.prems(1) Continue] have "I (Suc i) t" .
    from Suc.IH [OF this run] obtain j u where
      ju: "j < n" "I (Suc i + j) u" "for_range j (Suc i) body t = Continue u"
          "body (Suc i + j) u = Return r" "passes n (Suc i) body t = Suc j"
      by blast
    have "Suc j < Suc n \<and> I (i + Suc j) u \<and> for_range (Suc j) i body s = Continue u
          \<and> body (i + Suc j) u = Return r \<and> passes (Suc n) i body s = Suc (Suc j)"
      using ju Continue by simp
    then show ?thesis by blast
  next
    case (Return r')
    with Suc.prems have "0 < Suc n \<and> I (i + 0) s \<and> for_range 0 i body s = Continue s
          \<and> body (i + 0) s = Return r \<and> passes (Suc n) i body s = Suc 0"
      by simp
    then show ?thesis by blast
  next
    case (Raise e)
    with Suc.prems(2) show ?thesis by simp
  next
    case NonFinite
    with Suc.prems(2) show ?thesis by simp
  qed
qed

lemma for_range_Raise_cases:
  "for_range n i body s = Raise e \<Longrightarrow>
     \<exists>j t. j < n \<and> for_range j i body s = Continue t \<and> body (i + j) t = Raise e"
proof (induction n arbitrary: i s)
  case 0
  then show ?case by simp
next
  case (Suc n)
  show ?case
  proof (cases "body i s")
    case (Continue t)
    with Suc.prems have "for_range n (Suc i) body t = Raise e" by simp
    from Suc.IH [OF this] obtain j u where
      "j < n" "for_range j (Suc i) body t = Continue u" "body (Suc i + j) u = Raise e"
      by blast
    then have "Suc j < Suc n \<and> for_range (Suc j) i body s = Continue u \<and> body (i + Suc j) u = Raise e"
      using Continue by simp
    then show ?thesis by blast
  next
    case (Return r)
    with Suc.prems show ?thesis by simp
  next
    case (Raise e')
    with Suc.prems have "0 < Suc n \<and> for_range 0 i body s = Continue s \<and> body (i + 0) s = Raise e"
      by simp
    then show ?thesis by blast
  next
    case NonFinite
    with Suc.prems show ?thesis by simp
  qed
qed

lemma for_range_NonFinite_cases:
  "for_range n i body s = NonFinite \<Longrightarrow>
     \<exists>j t. j < n \<and> for_range j i body s = Continue t \<and> body (i + j) t = NonFinite"
proof (induction n arbitrary: i s)
  case 0
  then show ?case by simp
next
  case (Suc n)
  show ?case
  proof (cases "body i s")
    case (Continue t)
    with Suc.prems have "for_range n (Suc i) body t = NonFinite" by simp
    from Suc.IH [OF this] obtain j u where
      "j < n" "for_range j (Suc i) body t = Continue u" "body (Suc i + j) u = NonFinite"
      by blast
    then have "Suc j < Suc n \<and> for_range (Suc j) i body s = Continue u \<and> body (i + Suc j) u = NonFinite"
      using Continue by simp
    then show ?thesis by blast
  next
    case (Return r)
    with Suc.prems show ?thesis by simp
  next
    case (Raise e)
    with Suc.prems show ?thesis by simp
  next
    case NonFinite
    with Suc.prems have "0 < Suc n \<and> for_range 0 i body s = Continue s \<and> body (i + 0) s = NonFinite"
      by simp
    then show ?thesis by blast
  qed
qed

section \<open>The log kept by each method\<close>


lemma faithful_populated:
  "faithful k r \<Longrightarrow> \<exists>x e rows. r = (Some x, Some e, Some rows)"
  by (auto simp: faithful_def split: option.splits prod.splits)








section \<open>The precondition of the bracketing methods\<close>

text \<open>
  C1. When \<open>f a * f b \<ge> 0\<close> (a zero product included), bisection and regula falsi
  print their failure line and return \<^verbatim>\<open>None, None, None\<close>, whatever the tolerance and
  the iteration limit are; the loop is not entered, so no pass is performed and no
  exception can arise.
\<close>

theorem no_bracket_rejected:
  assumes "f a * f b \<ge> 0"
  shows "bisection f a b tol max_iter = ([''Bisection method fails.''], Returned (None, None, None))
       \<and> regula_falsi kind f a b tol max_iter = ([''Regula Falsi method fails.''], Returned (None, None, None))"
  using assms by (simp add: bisection_def regula_falsi_def)

text \<open>The boundary case: a root at the endpoint \<open>a = 1\<close> of \<open>x - 1\<close>, so the product is zero.\<close>

theorem no_bracket_rejected_witness:
  "(0::real) \<le> (1 - 1) * (2 - 1)
 \<and> bisection (\<lambda>x. x - 1) 1 2 (1 / 1000000) 100 = ([''Bisection method fails.''], Returned (None, None, None))
 \<and> regula_falsi PyFloat (\<lambda>x. x - 1) 1 2 (1 / 1000000) 100 = ([''Regula Falsi method fails.''], Returned (None, None, None))"
  using no_bracket_rejected [where f = "\<lambda>x. x - 1" and a = 1 and b = 2 and tol = "1 / 1000000"
      and max_iter = 100 and kind = PyFloat]
  by simp

section \<open>Unfolding a loop on a numeral, and concrete runs\<close>

lemma for_range_pos:
  "0 < n \<Longrightarrow> for_range n i body s =
     (case body i s of
        Continue s' \<Rightarrow> for_range (n - 1) (Suc i) body s'
      | Return r \<Rightarrow> Return r
      | Raise e \<Rightarrow> Raise e
      | NonFinite \<Rightarrow> NonFinite)"
  by (cases n) (simp_all split: flow.splits)

lemma passes_pos:
  "0 < n \<Longrightarrow> passes n i body s =
     (case body i s of
        Continue s' \<Rightarrow> Suc (passes (n - 1) (Suc i) body s')
      | Return r \<Rightarrow> Suc 0
      | Raise e \<Rightarrow> Suc 0
      | NonFinite \<Rightarrow> Suc 0)"
  by (cases n) (simp_all split: flow.splits)

section \<open>The shape of a returned triple\<close>



















section \<open>Bisection: the bracket and its width\<close>

lemma run_loop_result:
  assumes step: "\<And>j t t'. I j t \<Longrightarrow> body j t = Continue t' \<Longrightarrow> I (Suc j) t'"
      and ret: "\<And>j t r. I j t \<Longrightarrow> body j t = Return r \<Longrightarrow> Q r"
      and ex: "\<And>t r. I n t \<Longrightarrow> exit t = Returned r \<Longrightarrow> Q r"
      and init: "I 0 s"
      and run: "run_loop n body exit s = Returned r"
  shows "Q r"
proof (cases "for_range n 0 body s")
  case (Continue t)
  have "I (0 + n) t"
  proof (rule for_range_Continue_inv [where I = I and body = body])
    show "\<And>j t t'. I j t \<Longrightarrow> body j t = Continue t' \<Longrightarrow> I (Suc j) t'" by (rule step)
    show "I 0 s" by (rule init)
    show "for_range n 0 body s = Continue t" by (rule Continue)
  qed
  then have "I n t" by simp
  moreover from run Continue have "exit t = Returned r" by (simp add: run_loop_def)
  ultimately show ?thesis by (rule ex)
next
  case (Return r')
  with run have r: "r' = r" by (simp add: run_loop_def)
  have "\<exists>j t. j < n \<and> I (0 + j) t \<and> for_range j 0 body s = Continue t
          \<and> body (0 + j) t = Return r' \<and> passes n 0 body s = Suc j"
  proof (rule for_range_Return_cases [where I = I and body = body])
    show "\<And>j t t'. I j t \<Longrightarrow> body j t = Continue t' \<Longrightarrow> I (Suc j) t'" by (rule step)
    show "I 0 s" by (rule init)
    show "for_range n 0 body s = Return r'" by (rule Return)
  qed
  then obtain j t where "I (0 + j) t" "body (0 + j) t = Return r'" by blast
  with ret [of j t r'] r show ?thesis by simp
next
  case (Raise e)
  with run show ?thesis by (simp add: run_loop_def)
next
  case NonFinite
  with run show ?thesis by (simp add: run_loop_def)
qed

lemma halving_snoc:
  fixes w :: "'a \<Rightarrow> real"
  assumes old: "\<forall>k. Suc k < length its \<longrightarrow> w (its ! Suc k) = w (its ! k) / 2"
      and lst: "its \<noteq> [] \<longrightarrow> w (last its) = 2 * w r"
  shows "\<forall>k. Suc k < length (its @ [r]) \<longrightarrow> w ((its @ [r]) ! Suc k) = w ((its @ [r]) ! k) / 2"
proof (intro allI impI)
  fix k
  assume k: "Suc k < length (its @ [r])"
  show "w ((its @ [r]) ! Suc k) = w ((its @ [r]) ! k) / 2"
  proof (cases "Suc k < length its")
    case True
    with old show ?thesis by (simp add: nth_append)
  next
    case False
    with k have eq: "Suc k = length its" by simp
    then have ne: "its \<noteq> []" by auto
    from eq have "k = length its - 1" by simp
    with ne have "last its = its ! k" by (simp add: last_conv_nth)
    with lst ne have "w (its ! k) = 2 * w r" by simp
    with eq show ?thesis by (simp add: nth_append)
  qed
qed

lemma half_width:
  fixes a b :: real
  shows "\<bar>(a + b) / 2 - a\<bar> = \<bar>b - a\<bar> / 2" and "\<bar>b - (a + b) / 2\<bar> = \<bar>b - a\<bar> / 2"
proof -
  have e1: "(a + b) / 2 - a = (b - a) / 2" by (simp add: field_simps)
  have e2: "b - (a + b) / 2 = (b - a) / 2" by (simp add: field_simps)
  have e3: "\<bar>(b - a) / 2\<bar> = \<bar>b - a\<bar> / 2" by simp
  show "\<bar>(a + b) / 2 - a\<bar> = \<bar>b - a\<bar> / 2" by (simp only: e1 e3)
  show "\<bar>b - (a + b) / 2\<bar> = \<bar>b - a\<bar> / 2" by (simp only: e2 e3)
qed

lemma bisection_body_Continue:
  assumes "bisection_body f tol j (a, b, c0, its) = Continue (a', b', c', its')"
  shows "its' = its @ [(j + 1, (a + b) / 2, f ((a + b) / 2), \<bar>b - a\<bar>)]"
    and "c' = Some ((a + b) / 2)"
    and "\<not> \<bar>f ((a + b) / 2)\<bar> < tol"
    and "a' = a \<and> b' = (a + b) / 2 \<and> f a * f ((a + b) / 2) < 0
       \<or> a' = (a + b) / 2 \<and> b' = b \<and> \<not> f a * f ((a + b) / 2) < 0"
  using assms by (auto simp: Let_def split: if_splits)

lemma bisection_body_Return:
  assumes "bisection_body f tol j (a, b, c0, its) = Return r"
  shows "r = (Some ((a + b) / 2), Some \<bar>b - a\<bar>, Some (its @ [(j + 1, (a + b) / 2, f ((a + b) / 2), \<bar>b - a\<bar>)]))"
    and "\<bar>f ((a + b) / 2)\<bar> < tol"
  using assms by (auto simp: Let_def split: if_splits)

lemma bisection_body_width:
  assumes "bisection_body f tol j (a, b, c0, its) = Continue (a', b', c', its')"
  shows "\<bar>b' - a'\<bar> = \<bar>b - a\<bar> / 2"
  using bisection_body_Continue(4) [OF assms]
proof (elim disjE conjE)
  assume "a' = a" "b' = (a + b) / 2"
  then show ?thesis by (simp only: half_width(1))
next
  assume "a' = (a + b) / 2" "b' = b"
  then show ?thesis by (simp only: half_width(2))
qed

lemma bisection_body_halving:
  assumes old: "\<forall>k. Suc k < length its \<longrightarrow> snd (snd (snd (its ! Suc k))) = snd (snd (snd (its ! k))) / 2"
      and lst: "its \<noteq> [] \<longrightarrow> snd (snd (snd (last its))) = 2 * \<bar>b - a\<bar>"
  shows "bisection_body f tol j (a, b, c0, its) = Continue (a', b', c', its') \<Longrightarrow>
           (\<forall>k. Suc k < length its' \<longrightarrow> snd (snd (snd (its' ! Suc k))) = snd (snd (snd (its' ! k))) / 2)
           \<and> (its' \<noteq> [] \<longrightarrow> snd (snd (snd (last its'))) = 2 * \<bar>b' - a'\<bar>)"
    and "bisection_body f tol j (a, b, c0, its) = Return (x, e, Some rows) \<Longrightarrow>
           (\<forall>k. Suc k < length rows \<longrightarrow> snd (snd (snd (rows ! Suc k))) = snd (snd (snd (rows ! k))) / 2)"
proof -
  let ?r = "(j + 1, (a + b) / 2, f ((a + b) / 2), \<bar>b - a\<bar>)"
  have snoc: "\<forall>k. Suc k < length (its @ [?r]) \<longrightarrow>
      snd (snd (snd ((its @ [?r]) ! Suc k))) = snd (snd (snd ((its @ [?r]) ! k))) / 2"
    by (rule halving_snoc [where w = "\<lambda>r. snd (snd (snd r))"]) (use old lst in simp_all)
  {
    assume "bisection_body f tol j (a, b, c0, its) = Continue (a', b', c', its')"
    then have its': "its' = its @ [?r]" and ab: "\<bar>b' - a'\<bar> = \<bar>b - a\<bar> / 2"
      by (rule bisection_body_Continue(1), rule bisection_body_width)
    show "(\<forall>k. Suc k < length its' \<longrightarrow> snd (snd (snd (its' ! Suc k))) = snd (snd (snd (its' ! k))) / 2)
           \<and> (its' \<noteq> [] \<longrightarrow> snd (snd (snd (last its'))) = 2 * \<bar>b' - a'\<bar>)"
      using snoc unfolding its' ab by simp
  }
  {
    assume "bisection_body f tol j (a, b, c0, its) = Return (x, e, Some rows)"
    from bisection_body_Return(1) [OF this] have "rows = its @ [?r]" by simp
    with snoc show "\<forall>k. Suc k < length rows \<longrightarrow> snd (snd (snd (rows ! Suc k))) = snd (snd (snd (rows ! k))) / 2"
      by simp
  }
qed


lemma bisection_halving:
  assumes run: "run_loop n (bisection_body f tol) bracket_exit (a, b, None, []) = Returned r"
  shows "\<forall>rows. snd (snd r) = Some rows \<longrightarrow>
           (\<forall>k. Suc k < length rows \<longrightarrow> snd (snd (snd (rows ! Suc k))) = snd (snd (snd (rows ! k))) / 2)"
proof (rule run_loop_result [where Q = "\<lambda>r. \<forall>rows. snd (snd r) = Some rows \<longrightarrow>
           (\<forall>k. Suc k < length rows \<longrightarrow> snd (snd (snd (rows ! Suc k))) = snd (snd (snd (rows ! k))) / 2)"
    and I = "\<lambda>j t. (\<forall>k. Suc k < length (snd (snd (snd t))) \<longrightarrow>
              snd (snd (snd (snd (snd (snd t)) ! Suc k))) = snd (snd (snd (snd (snd (snd t)) ! k))) / 2)
           \<and> (snd (snd (snd t)) \<noteq> [] \<longrightarrow> snd (snd (snd (last (snd (snd (snd t)))))) = 2 * \<bar>fst (snd t) - fst t\<bar>)",
    OF _ _ _ _ run])
  fix j t t'
  assume inv: "(\<forall>k. Suc k < length (snd (snd (snd t))) \<longrightarrow>
              snd (snd (snd (snd (snd (snd t)) ! Suc k))) = snd (snd (snd (snd (snd (snd t)) ! k))) / 2)
           \<and> (snd (snd (snd t)) \<noteq> [] \<longrightarrow> snd (snd (snd (last (snd (snd (snd t)))))) = 2 * \<bar>fst (snd t) - fst t\<bar>)"
    and body: "bisection_body f tol j t = Continue t'"
  obtain a0 b0 c0 its where t: "t = (a0, b0, c0, its)" by (cases t)
  obtain a1 b1 c1 its1 where t': "t' = (a1, b1, c1, its1)" by (cases t')
  from bisection_body_halving(1) [of its b0 a0 f tol j c0 a1 b1 c1 its1] inv body
  show "(\<forall>k. Suc k < length (snd (snd (snd t'))) \<longrightarrow>
              snd (snd (snd (snd (snd (snd t')) ! Suc k))) = snd (snd (snd (snd (snd (snd t')) ! k))) / 2)
           \<and> (snd (snd (snd t')) \<noteq> [] \<longrightarrow> snd (snd (snd (last (snd (snd (snd t')))))) = 2 * \<bar>fst (snd t') - fst t'\<bar>)"
    unfolding t t' by simp
next
  fix j t r'
  assume inv: "(\<forall>k. Suc k < length (snd (snd (snd t))) \<longrightarrow>
              snd (snd (snd (snd (snd (snd t)) ! Suc k))) = snd (snd (snd (snd (snd (snd t)) ! k))) / 2)
           \<and> (snd (snd (snd t)) \<noteq> [] \<longrightarrow> snd (snd (snd (last (snd (snd (snd t)))))) = 2 * \<bar>fst (snd t) - fst t\<bar>)"
    and body: "bisection_body f tol j t = Return r'"
  obtain a0 b0 c0 its where t: "t = (a0, b0, c0, its)" by (cases t)
  obtain x e rows' where r': "r' = (x, e, rows')" by (cases r')
  show "\<forall>rows. snd (snd r') = Some rows \<longrightarrow>
           (\<forall>k. Suc k < length rows \<longrightarrow> snd (snd (snd (rows ! Suc k))) = snd (snd (snd (rows ! k))) / 2)"
  proof (intro allI impI)
    fix rows k
    assume "snd (snd r') = Some rows" and k: "Suc k < length rows"
    with r' body t have "bisection_body f tol j (a0, b0, c0, its) = Return (x, e, Some rows)" by simp
    from bisection_body_halving(2) [of its b0 a0 f tol j c0 x e rows] inv this k
    show "snd (snd (snd (rows ! Suc k))) = snd (snd (snd (rows ! k))) / 2"
      unfolding t by simp
  qed
next
  fix t r'
  assume inv: "(\<forall>k. Suc k < length (snd (snd (snd t))) \<longrightarrow>
              snd (snd (snd (snd (snd (snd t)) ! Suc k))) = snd (snd (snd (snd (snd (snd t)) ! k))) / 2)
           \<and> (snd (snd (snd t)) \<noteq> [] \<longrightarrow> snd (snd (snd (last (snd (snd (snd t)))))) = 2 * \<bar>fst (snd t) - fst t\<bar>)"
    and ex: "bracket_exit t = Returned r'"
  obtain a0 b0 c0 its where t: "t = (a0, b0, c0, its)" by (cases t)
  from ex t have "snd (snd r') = Some its" by (cases c0) auto
  with inv t show "\<forall>rows. snd (snd r') = Some rows \<longrightarrow>
           (\<forall>k. Suc k < length rows \<longrightarrow> snd (snd (snd (rows ! Suc k))) = snd (snd (snd (rows ! k))) / 2)"
    by simp
next
  show "(\<forall>k. Suc k < length (snd (snd (snd (a, b, None, [])))) \<longrightarrow>
              snd (snd (snd (snd (snd (snd (a, b, None, []))) ! Suc k))) = snd (snd (snd (snd (snd (snd (a, b, None, []))) ! k))) / 2)
           \<and> (snd (snd (snd (a, b, None, [])) ) \<noteq> [] \<longrightarrow> snd (snd (snd (last (snd (snd (snd (a, b, None, [])))))))
               = 2 * \<bar>fst (snd (a, b, None, [])) - fst (a, b, None, [])\<bar>)"
    by simp
qed


lemma example_bisection_two_passes:
  "bisection (\<lambda>x. x\<^sup>2 - 2) 1 2 (1 / 1000000) 2 =
     ([], Returned (Some (5 / 4), Some (1 / 4), Some [(1, 3 / 2, 1 / 4, 1), (2, 5 / 4, - (7 / 16), 1 / 2)]))"
  by (simp add: bisection_def run_loop_def for_range_pos Let_def power2_eq_square)

text \<open>
  C5. In exact arithmetic, in every log that bisection returns, the fourth field (the
  bracket width \<^verbatim>\<open>abs(b - a)\<close>) of each row after the first is half the fourth field of
  the row before it. A call that returns a log passed the bracket test, so the valid
  bracket is implied by the hypothesis.
\<close>

theorem bisection_width_halves:
  assumes "snd (bisection f a b tol max_iter) = Returned (x, e, Some rows)" and "Suc k < length rows"
  shows "snd (snd (snd (rows ! Suc k))) = snd (snd (snd (rows ! k))) / 2"
proof -
  from assms(1) have "run_loop (nat max_iter) (bisection_body f tol) bracket_exit (a, b, None, []) = Returned (x, e, Some rows)"
    by (simp add: bisection_def split: if_splits)
  from bisection_halving [OF this] assms(2) show ?thesis by simp
qed

text \<open>A two-pass run on \<open>x\<^sup>2 - 2\<close> over \<open>[1, 2]\<close>: the widths logged are 1 and 1/2.\<close>

theorem bisection_width_halves_witness:
  "snd (bisection (\<lambda>x. x\<^sup>2 - 2) 1 2 (1 / 1000000) 2) =
     Returned (Some (5 / 4), Some (1 / 4), Some [(1, 3 / 2, 1 / 4, 1), (2, 5 / 4, - (7 / 16), 1 / 2)])
 \<and> Suc 0 < length [(1::nat, 3 / 2 :: real, 1 / 4 :: real, 1 :: real), (2, 5 / 4, - (7 / 16), 1 / 2)]
 \<and> snd (snd (snd ([(1::nat, 3 / 2 :: real, 1 / 4 :: real, 1 :: real), (2, 5 / 4, - (7 / 16), 1 / 2)] ! Suc 0)))
     = snd (snd (snd ([(1::nat, 3 / 2 :: real, 1 / 4 :: real, 1 :: real), (2, 5 / 4, - (7 / 16), 1 / 2)] ! 0))) / 2"
  using bisection_width_halves [where f = "\<lambda>x. x\<^sup>2 - 2" and a = 1 and b = 2 and tol = "1 / 1000000"
      and max_iter = 2 and x = "Some (5 / 4)" and e = "Some (1 / 4)"
      and rows = "[(1, 3 / 2, 1 / 4, 1), (2, 5 / 4, - (7 / 16), 1 / 2)]" and k = 0]
  by (simp add: example_bisection_two_passes)



lemma example_bisection_loop:
  "for_range (nat 1) 0 (bisection_body (\<lambda>x. x\<^sup>2 - 2) (1 / 1000000)) (1, 2, None, [])
     = Continue (1, 3 / 2, Some (3 / 2), [(1, 3 / 2, 1 / 4, 1)])"
  by (simp add: Let_def power2_eq_square)


section \<open>The bracket invariant\<close>

lemma sign_kept:
  fixes u v w :: real
  assumes "u * v < 0" and "\<not> u * w < 0" and "w \<noteq> 0"
  shows "w * v < 0"
  using assms by (auto simp: mult_less_0_iff not_less)

lemma opposite_signs_differ:
  fixes u v :: real
  assumes "u * v < 0"
  shows "v - u \<noteq> 0"
  using assms by (auto simp: mult_less_0_iff)

lemma regula_falsi_body_Continue:
  assumes "regula_falsi_body kind f tol j (a, b, c0, its) = Continue (a', b', c', its')"
  shows "f b - f a \<noteq> 0"
    and "\<not> \<bar>f ((a * f b - b * f a) / (f b - f a))\<bar> < tol"
    and "a' = a \<and> b' = (a * f b - b * f a) / (f b - f a) \<and> f a * f b' < 0
       \<or> a' = (a * f b - b * f a) / (f b - f a) \<and> b' = b \<and> \<not> f a * f a' < 0"
  using assms by (auto simp: py_div_def Let_def split: if_splits float_kind.splits)

lemma regula_falsi_body_Raise:
  assumes "regula_falsi_body kind f tol j (a, b, c0, its) = Raise e"
  shows "f b - f a = 0"
  using assms by (auto simp: py_div_def Let_def split: if_splits float_kind.splits)

lemma regula_falsi_body_NonFinite:
  assumes "regula_falsi_body kind f tol j (a, b, c0, its) = NonFinite"
  shows "f b - f a = 0"
  using assms by (auto simp: py_div_def Let_def split: if_splits float_kind.splits)

lemma bracket_exit_error:
  "bracket_exit t = Raised e \<Longrightarrow> e = UnboundLocalError"
  by (cases t rule: bracket_exit.cases) auto

lemma bracket_exit_finite:
  "bracket_exit t \<noteq> Non_finite"
  by (cases t rule: bracket_exit.cases) auto

lemma bisection_bracket_kept:
  assumes br: "f a * f b < 0" and tol: "0 < tol"
      and run: "for_range k 0 (bisection_body f tol) (a, b, None, []) = Continue (a', b', c', its)"
  shows "f a' * f b' < 0"
proof -
  let ?I = "\<lambda>(j::nat) t. f (fst t) * f (fst (snd t)) < 0"
  have "?I (0 + k) (a', b', c', its)"
  proof (rule for_range_Continue_inv [where I = ?I, OF _ _ run])
    fix j t t'
    assume inv: "?I j t" and body: "bisection_body f tol j t = Continue t'"
    obtain a0 b0 c0 its0 where t: "t = (a0, b0, c0, its0)" by (cases t)
    obtain a1 b1 c1 its1 where t': "t' = (a1, b1, c1, its1)" by (cases t')
    note facts = bisection_body_Continue [OF body [unfolded t t']]
    from facts(3) tol have nz: "f ((a0 + b0) / 2) \<noteq> 0" by auto
    from inv t have ab: "f a0 * f b0 < 0" by simp
    from facts(4) have "f a1 * f b1 < 0"
    proof (elim disjE conjE)
      assume 1: "a1 = a0" and 2: "b1 = (a0 + b0) / 2" and 3: "f a0 * f ((a0 + b0) / 2) < 0"
      show ?thesis unfolding 1 2 by (rule 3)
    next
      assume 1: "a1 = (a0 + b0) / 2" and 2: "b1 = b0" and 3: "\<not> f a0 * f ((a0 + b0) / 2) < 0"
      show ?thesis unfolding 1 2 by (rule sign_kept [OF ab 3 nz])
    qed
    then show "?I (Suc j) t'" unfolding t' by simp
  next
    show "?I 0 (a, b, None, [])" using br by simp
  qed
  then show ?thesis by simp
qed

lemma regula_falsi_bracket_kept:
  assumes br: "f a * f b < 0" and tol: "0 < tol"
      and run: "for_range k 0 (regula_falsi_body kind f tol) (a, b, None, []) = Continue (a', b', c', its)"
  shows "f a' * f b' < 0"
proof -
  let ?I = "\<lambda>(j::nat) t. f (fst t) * f (fst (snd t)) < 0"
  have "?I (0 + k) (a', b', c', its)"
  proof (rule for_range_Continue_inv [where I = ?I, OF _ _ run])
    fix j t t'
    assume inv: "?I j t" and body: "regula_falsi_body kind f tol j t = Continue t'"
    obtain a0 b0 c0 its0 where t: "t = (a0, b0, c0, its0)" by (cases t)
    obtain a1 b1 c1 its1 where t': "t' = (a1, b1, c1, its1)" by (cases t')
    note facts = regula_falsi_body_Continue [OF body [unfolded t t']]
    let ?c = "(a0 * f b0 - b0 * f a0) / (f b0 - f a0)"
    from facts(2) tol have nz: "f ?c \<noteq> 0" by auto
    from inv t have ab: "f a0 * f b0 < 0" by simp
    from facts(3) have "f a1 * f b1 < 0"
    proof (elim disjE conjE)
      assume 1: "a1 = a0" and 3: "f a0 * f b1 < 0"
      show ?thesis unfolding 1 by (rule 3)
    next
      assume 1: "a1 = ?c" and 2: "b1 = b0" and 3: "\<not> f a0 * f a1 < 0"
      from 3 have 4: "\<not> f a0 * f ?c < 0" unfolding 1 .
      show ?thesis unfolding 1 2 by (rule sign_kept [OF ab 4 nz])
    qed
    then show "?I (Suc j) t'" unfolding t' by simp
  next
    show "?I 0 (a, b, None, [])" using br by simp
  qed
  then show ?thesis by simp
qed

lemma regula_falsi_never_raises:
  assumes br: "f a * f b < 0" and tol: "0 < tol"
  shows "for_range k 0 (regula_falsi_body kind f tol) (a, b, None, []) \<noteq> Raise e"
proof
  assume "for_range k 0 (regula_falsi_body kind f tol) (a, b, None, []) = Raise e"
  from for_range_Raise_cases [OF this] obtain j t where
    reach: "for_range j 0 (regula_falsi_body kind f tol) (a, b, None, []) = Continue t"
    and raise: "regula_falsi_body kind f tol (0 + j) t = Raise e"
    by blast
  obtain a0 b0 c0 its0 where t: "t = (a0, b0, c0, its0)" by (cases t)
  from regula_falsi_bracket_kept [OF br tol reach [unfolded t]] have "f a0 * f b0 < 0" .
  then have "f b0 - f a0 \<noteq> 0" by (rule opposite_signs_differ)
  moreover from regula_falsi_body_Raise [OF raise [unfolded t]] have "f b0 - f a0 = 0" .
  ultimately show False by simp
qed

lemma regula_falsi_stays_finite:
  assumes br: "f a * f b < 0" and tol: "0 < tol"
  shows "for_range k 0 (regula_falsi_body kind f tol) (a, b, None, []) \<noteq> NonFinite"
proof
  assume "for_range k 0 (regula_falsi_body kind f tol) (a, b, None, []) = NonFinite"
  from for_range_NonFinite_cases [OF this] obtain j t where
    reach: "for_range j 0 (regula_falsi_body kind f tol) (a, b, None, []) = Continue t"
    and leave: "regula_falsi_body kind f tol (0 + j) t = NonFinite"
    by blast
  obtain a0 b0 c0 its0 where t: "t = (a0, b0, c0, its0)" by (cases t)
  from regula_falsi_bracket_kept [OF br tol reach [unfolded t]] have "f a0 * f b0 < 0" .
  then have "f b0 - f a0 \<noteq> 0" by (rule opposite_signs_differ)
  moreover from regula_falsi_body_NonFinite [OF leave [unfolded t]] have "f b0 - f a0 = 0" .
  ultimately show False by simp
qed

text \<open>
  C10. In exact arithmetic, on a valid bracket and with a positive tolerance, the locals
  \<open>a\<close>, \<open>b\<close> at the start of every pass of bisection and of regula falsi (the state
  after any number \<open>k\<close> of passes that fell through) satisfy \<open>f a * f b < 0\<close>: a pass
  that falls through has a residual that is not below the tolerance, hence not zero, so
  the endpoint it replaces has the sign of the residual. Consequently the denominator
  \<open>f b - f a\<close> of regula falsi is never zero: whatever the float type of the function
  values, no pass of regula falsi raises or produces an infinity or a NaN, and the call
  never ends in \<^verbatim>\<open>ZeroDivisionError\<close>.
\<close>

theorem bracket_invariant:
  assumes "f a * f b < 0" and "0 < tol"
  shows "(for_range k 0 (bisection_body f tol) (a, b, None, []) = Continue (a', b', c', its)
            \<longrightarrow> f a' * f b' < 0)
       \<and> (for_range k 0 (regula_falsi_body kind f tol) (a, b, None, []) = Continue (a', b', c', its)
            \<longrightarrow> f a' * f b' < 0 \<and> f b' - f a' \<noteq> 0)
       \<and> (\<forall>e. for_range k 0 (regula_falsi_body kind f tol) (a, b, None, []) \<noteq> Raise e)
       \<and> snd (regula_falsi kind f a b tol max_iter) \<noteq> Raised ZeroDivisionError
       \<and> for_range k 0 (regula_falsi_body kind f tol) (a, b, None, []) \<noteq> NonFinite
       \<and> snd (regula_falsi kind f a b tol max_iter) \<noteq> Non_finite"
proof (intro conjI impI allI)
  assume "for_range k 0 (bisection_body f tol) (a, b, None, []) = Continue (a', b', c', its)"
  with assms show "f a' * f b' < 0" by (rule bisection_bracket_kept)
next
  assume "for_range k 0 (regula_falsi_body kind f tol) (a, b, None, []) = Continue (a', b', c', its)"
  with assms show "f a' * f b' < 0" by (rule regula_falsi_bracket_kept)
  then show "f b' - f a' \<noteq> 0" by (rule opposite_signs_differ)
next
  fix e
  from assms show "for_range k 0 (regula_falsi_body kind f tol) (a, b, None, []) \<noteq> Raise e"
    by (rule regula_falsi_never_raises)
next
  from assms have nr: "for_range (nat max_iter) 0 (regula_falsi_body kind f tol) (a, b, None, []) \<noteq> Raise ZeroDivisionError"
    by (rule regula_falsi_never_raises)
  show "snd (regula_falsi kind f a b tol max_iter) \<noteq> Raised ZeroDivisionError"
  proof (cases "for_range (nat max_iter) 0 (regula_falsi_body kind f tol) (a, b, None, [])")
    case (Continue t)
    have "bracket_exit t \<noteq> Raised ZeroDivisionError"
      using bracket_exit_error [of t ZeroDivisionError] by auto
    with Continue assms(1) show ?thesis by (simp add: regula_falsi_def run_loop_def)
  next
    case (Return r)
    with assms(1) show ?thesis by (simp add: regula_falsi_def run_loop_def)
  next
    case (Raise e)
    with nr assms(1) show ?thesis by (simp add: regula_falsi_def run_loop_def)
  next
    case NonFinite
    with assms(1) show ?thesis by (simp add: regula_falsi_def run_loop_def)
  qed
next
  from assms show "for_range k 0 (regula_falsi_body kind f tol) (a, b, None, []) \<noteq> NonFinite"
    by (rule regula_falsi_stays_finite)
next
  from assms have nf: "for_range (nat max_iter) 0 (regula_falsi_body kind f tol) (a, b, None, []) \<noteq> NonFinite"
    by (rule regula_falsi_stays_finite)
  show "snd (regula_falsi kind f a b tol max_iter) \<noteq> Non_finite"
  proof (cases "for_range (nat max_iter) 0 (regula_falsi_body kind f tol) (a, b, None, [])")
    case (Continue t)
    with assms(1) bracket_exit_finite [of t] show ?thesis by (simp add: regula_falsi_def run_loop_def)
  next
    case (Return r)
    with assms(1) show ?thesis by (simp add: regula_falsi_def run_loop_def)
  next
    case (Raise e)
    with assms(1) show ?thesis by (simp add: regula_falsi_def run_loop_def)
  next
    case NonFinite
    with nf show ?thesis by simp
  qed
qed


lemma example_regula_falsi_loop:
  "for_range 1 0 (regula_falsi_body PyFloat (\<lambda>x. x\<^sup>2 - 2) (1 / 1000000)) (1, 2, None, [])
     = Continue (4 / 3, 2, Some (4 / 3), [(1, 4 / 3, - (2 / 9), 1)])"
  by (simp add: py_div_def Let_def power2_eq_square)

text \<open>The state after the first pass of either method on \<open>x\<^sup>2 - 2\<close> over \<open>[1, 2]\<close>.\<close>

theorem bracket_invariant_witness:
  "(1\<^sup>2 - 2) * (2\<^sup>2 - 2) < (0::real) \<and> (0::real) < 1 / 1000000
 \<and> for_range 1 0 (bisection_body (\<lambda>x. x\<^sup>2 - 2) (1 / 1000000)) (1, 2, None, [])
     = Continue (1, 3 / 2, Some (3 / 2), [(1, 3 / 2, 1 / 4, 1)])
 \<and> (1\<^sup>2 - 2) * ((3 / 2)\<^sup>2 - 2) < (0::real)
 \<and> for_range 1 0 (regula_falsi_body PyFloat (\<lambda>x. x\<^sup>2 - 2) (1 / 1000000)) (1, 2, None, [])
     = Continue (4 / 3, 2, Some (4 / 3), [(1, 4 / 3, - (2 / 9), 1)])
 \<and> ((4 / 3)\<^sup>2 - 2) * (2\<^sup>2 - 2) < (0::real)
 \<and> (2\<^sup>2 - 2) - ((4 / 3)\<^sup>2 - 2) \<noteq> (0::real)
 \<and> snd (regula_falsi PyFloat (\<lambda>x. x\<^sup>2 - 2) 1 2 (1 / 1000000) 1) \<noteq> Raised ZeroDivisionError"
  using bracket_invariant [where f = "\<lambda>x. x\<^sup>2 - 2" and a = 1 and b = 2 and tol = "1 / 1000000" and k = 1
      and a' = 1 and b' = "3 / 2" and c' = "Some (3 / 2)" and its = "[(1, 3 / 2, 1 / 4, 1)]" and max_iter = 1
      and kind = PyFloat]
    bracket_invariant [where f = "\<lambda>x. x\<^sup>2 - 2" and a = 1 and b = 2 and tol = "1 / 1000000" and k = 1
      and a' = "4 / 3" and b' = 2 and c' = "Some (4 / 3)" and its = "[(1, 4 / 3, - (2 / 9), 1)]" and max_iter = 1
      and kind = PyFloat]
    example_bisection_loop example_regula_falsi_loop
  by (simp add: power2_eq_square)

section \<open>How fast bisection narrows the bracket\<close>

lemma bisection_width_after:
  assumes run: "for_range k 0 (bisection_body f tol) (a, b, None, []) = Continue (a', b', c', its)"
  shows "\<bar>b' - a'\<bar> = \<bar>b - a\<bar> / 2 ^ k"
proof -
  let ?I = "\<lambda>(j::nat) t. \<bar>fst (snd t) - fst t\<bar> = \<bar>b - a\<bar> / 2 ^ j"
  have "?I (0 + k) (a', b', c', its)"
  proof (rule for_range_Continue_inv [where I = ?I, OF _ _ run])
    fix j t t'
    assume inv: "?I j t" and body: "bisection_body f tol j t = Continue t'"
    obtain a0 b0 c0 its0 where t: "t = (a0, b0, c0, its0)" by (cases t)
    obtain a1 b1 c1 its1 where t': "t' = (a1, b1, c1, its1)" by (cases t')
    from bisection_body_width [OF body [unfolded t t']] have "\<bar>b1 - a1\<bar> = \<bar>b0 - a0\<bar> / 2" .
    also from inv t have "\<bar>b0 - a0\<bar> = \<bar>b - a\<bar> / 2 ^ j" by simp
    finally show "?I (Suc j) t'" unfolding t' by simp
  next
    show "?I 0 (a, b, None, [])" by simp
  qed
  then show ?thesis by simp
qed

lemma ceiling_log_bound:
  fixes y :: real
  assumes y: "0 < y" and k: "nat \<lceil>log 2 y\<rceil> \<le> k"
  shows "y \<le> 2 ^ k"
proof -
  have "log 2 y \<le> real_of_int \<lceil>log 2 y\<rceil>" by (rule le_of_int_ceiling)
  also have "\<dots> \<le> real (nat \<lceil>log 2 y\<rceil>)" by simp
  also from k have "\<dots> \<le> real k" by simp
  finally have "log 2 y \<le> real k" .
  with y have "y \<le> 2 powr real k" by (simp add: le_powr_iff)
  then show ?thesis by (simp add: powr_realpow)
qed

text \<open>
  C6 claims that on a continuous function and a valid bracket bisection meets its
  stopping rule \<open>\<bar>f c\<bar> < tol\<close> within \<open>\<lceil>log 2 ((b - a) / tol)\<rceil>\<close> passes. The stopping rule
  tests the residual, not the bracket width, so the bound does not hold: for
  \<open>f x = 4 * x - 1\<close> on \<open>[0, 1]\<close> with tolerance 1/2 the bound is one pass, the first pass
  falls through with residual 1, and the call returns on its second pass.
\<close>

theorem bisection_iteration_bound_counterexample:
  "continuous_on UNIV (\<lambda>x::real. 4 * x - 1)
 \<and> (4 * 0 - 1) * (4 * 1 - 1) < (0::real) \<and> (0::real) < 1 / 2
 \<and> nat \<lceil>log 2 ((1 - 0) / (1 / 2))\<rceil> = 1
 \<and> for_range 1 0 (bisection_body (\<lambda>x. 4 * x - 1) (1 / 2)) (0, 1, None, [])
      = Continue (0, 1 / 2, Some (1 / 2), [(1, 1 / 2, 1, 1)])
 \<and> \<not> \<bar>4 * (1 / 2) - 1\<bar> < (1 / 2 :: real)
 \<and> passes (nat 100) 0 (bisection_body (\<lambda>x. 4 * x - 1) (1 / 2)) (0, 1, None, []) = 2
 \<and> bisection (\<lambda>x. 4 * x - 1) 0 1 (1 / 2) 100
      = ([], Returned (Some (1 / 4), Some (1 / 2), Some [(1, 1 / 2, 1, 1), (2, 1 / 4, 0, 1 / 2)]))"
proof (intro conjI)
  show "continuous_on UNIV (\<lambda>x::real. 4 * x - 1)" by (intro continuous_intros)
  show "nat \<lceil>log 2 ((1 - 0) / (1 / 2))\<rceil> = 1" by simp
  show "for_range 1 0 (bisection_body (\<lambda>x. 4 * x - 1) (1 / 2)) (0, 1, None, [])
      = Continue (0, 1 / 2, Some (1 / 2), [(1, 1 / 2, 1, 1)])"
    by (simp add: Let_def)
  show "passes (nat 100) 0 (bisection_body (\<lambda>x. 4 * x - 1) (1 / 2)) (0, 1, None, []) = 2"
    by (simp add: passes_pos Let_def)
  show "bisection (\<lambda>x. 4 * x - 1) 0 1 (1 / 2) 100
      = ([], Returned (Some (1 / 4), Some (1 / 2), Some [(1, 1 / 2, 1, 1), (2, 1 / 4, 0, 1 / 2)]))"
    by (simp add: bisection_def run_loop_def for_range_pos Let_def)
qed simp_all

text \<open>
  C6 as amended, in exact arithmetic (floats read as reals, as in C5 and C10). What
  \<open>\<lceil>log 2 ((b - a) / tol)\<rceil>\<close> passes do bound is the bracket: on a valid bracket with
  \<open>a < b\<close> and a positive tolerance, whenever the loop is still running after \<open>k\<close>
  passes, for any \<open>k\<close>, the bracket width is \<open>(b - a) / 2 ^ k\<close>; so it is at most the
  tolerance once \<open>k\<close> reaches that number. (In floating point the midpoint of two
  adjacent floats is one of them, and the width then stops shrinking.)
\<close>

theorem bisection_bracket_width_bound:
  assumes "f a * f b < 0" and "a < b" and "0 < tol"
      and "for_range k 0 (bisection_body f tol) (a, b, None, []) = Continue (a', b', c', its)"
  shows "\<bar>b' - a'\<bar> = (b - a) / 2 ^ k
       \<and> (nat \<lceil>log 2 ((b - a) / tol)\<rceil> \<le> k \<longrightarrow> \<bar>b' - a'\<bar> \<le> tol)"
proof (intro conjI impI)
  from bisection_width_after [OF assms(4)] assms(2)
  show w: "\<bar>b' - a'\<bar> = (b - a) / 2 ^ k" by simp
  assume k: "nat \<lceil>log 2 ((b - a) / tol)\<rceil> \<le> k"
  from assms(2,3) have "0 < (b - a) / tol" by simp
  from ceiling_log_bound [OF this k] have "(b - a) / tol \<le> 2 ^ k" .
  with assms(3) have "b - a \<le> 2 ^ k * tol" by (simp add: field_simps)
  then have "(b - a) / 2 ^ k \<le> tol" by (simp add: field_simps)
  with w show "\<bar>b' - a'\<bar> \<le> tol" by simp
qed

text \<open>
  The amended statement at the input of the counterexample, after one pass, where the
  bound of one pass is reached.
\<close>

theorem bisection_bracket_width_bound_witness:
  "(4 * 0 - 1) * (4 * 1 - 1) < (0::real) \<and> (0::real) < 1 \<and> (0::real) < 1 / 2
 \<and> for_range 1 0 (bisection_body (\<lambda>x. 4 * x - 1) (1 / 2)) (0, 1, None, [])
      = Continue (0, 1 / 2, Some (1 / 2), [(1, 1 / 2, 1, 1)])
 \<and> nat \<lceil>log 2 ((1 - 0) / (1 / 2))\<rceil> \<le> 1
 \<and> \<bar>1 / 2 - 0\<bar> = (1 - 0) / (2::real) ^ 1 \<and> \<bar>1 / 2 - 0\<bar> \<le> (1 / 2 :: real)"
  using bisection_bracket_width_bound [where f = "\<lambda>x. 4 * x - 1" and a = 0 and b = 1 and tol = "1 / 2"
      and k = 1 and a' = 0 and b' = "1 / 2" and c' = "Some (1 / 2)" and its = "[(1, 1 / 2, 1, 1)]"]
  by (simp add: Let_def)

section \<open>Division by zero inside a loop\<close>

text \<open>
  A pass that is reached and raises, or leaves the reals, decides how the call ends.
\<close>

lemma run_loop_Raise:
  assumes reach: "for_range k 0 body s = Continue t"
      and raise: "body k t = Raise e"
      and k: "k < n"
  shows "run_loop n body exit s = Raised e"
proof -
  define m where "m = n - Suc k"
  with k have n: "n = k + Suc m" by simp
  have "for_range (k + Suc m) 0 body s = for_range (Suc m) (0 + k) body t"
    using reach by (simp only: for_range_add flow.case)
  also have "\<dots> = Raise e" using raise by simp
  finally show ?thesis unfolding n by (simp add: run_loop_def)
qed

lemma run_loop_NonFinite:
  assumes reach: "for_range k 0 body s = Continue t"
      and leave: "body k t = NonFinite"
      and k: "k < n"
  shows "run_loop n body exit s = Non_finite"
proof -
  define m where "m = n - Suc k"
  with k have n: "n = k + Suc m" by simp
  have "for_range (k + Suc m) 0 body s = for_range (Suc m) (0 + k) body t"
    using reach by (simp only: for_range_add flow.case)
  also have "\<dots> = NonFinite" using leave by simp
  finally show ?thesis unfolding n by (simp add: run_loop_def)
qed

lemma py_div_zero:
  "py_div kind x 0 = (case kind of PyFloat \<Rightarrow> Raises ZeroDivisionError | NumpyFloat \<Rightarrow> Inf_or_NaN)"
  by (simp add: py_div_def)

lemma secant_body_zero:
  assumes "f x1 - f x0 = 0"
  shows "secant_body kind f tol i (x0, x1, x2, its)
       = (case kind of PyFloat \<Rightarrow> Raise ZeroDivisionError | NumpyFloat \<Rightarrow> NonFinite)"
  by (cases kind) (simp_all add: assms py_div_zero)

lemma newton_raphson_body_zero:
  assumes "df x0 = 0"
  shows "newton_raphson_body kind f df tol i (x0, x1, its)
       = (case kind of PyFloat \<Rightarrow> Raise ZeroDivisionError | NumpyFloat \<Rightarrow> NonFinite)"
  by (cases kind) (simp_all add: assms py_div_zero)

lemma modified_secant_body_zero:
  assumes "f (x0 + delta * x0) - f x0 = 0"
  shows "modified_secant_body kind f delta tol i (x0, x1, its)
       = (case kind of PyFloat \<Rightarrow> Raise ZeroDivisionError | NumpyFloat \<Rightarrow> NonFinite)"
  by (cases kind) (simp_all add: assms py_div_zero)

lemma run_loop_zero:
  assumes reach: "for_range k 0 body s = Continue t"
      and zero: "body k t = (case kind of PyFloat \<Rightarrow> Raise ZeroDivisionError | NumpyFloat \<Rightarrow> NonFinite)"
      and k: "k < n"
  shows "run_loop n body exit s
       = (case kind of PyFloat \<Rightarrow> Raised ZeroDivisionError | NumpyFloat \<Rightarrow> Non_finite)"
proof (cases kind)
  case PyFloat
  with zero have raise: "body k t = Raise ZeroDivisionError" by simp
  have "run_loop n body exit s = Raised ZeroDivisionError"
    using reach raise k by (rule run_loop_Raise)
  with PyFloat show ?thesis by simp
next
  case NumpyFloat
  with zero have leave: "body k t = NonFinite" by simp
  have "run_loop n body exit s = Non_finite"
    using reach leave k by (rule run_loop_NonFinite)
  with NumpyFloat show ?thesis by simp
qed

lemma secant_zero_denominator:
  assumes "for_range k 0 (secant_body kind f tol) (x0, x1, None, []) = Continue (y0, y1, y2, its)"
      and "k < nat max_iter" and "f y1 - f y0 = 0"
  shows "secant kind f x0 x1 tol max_iter
       = (case kind of PyFloat \<Rightarrow> Raised ZeroDivisionError | NumpyFloat \<Rightarrow> Non_finite)"
  unfolding secant_def
proof (rule run_loop_zero [where k = k and t = "(y0, y1, y2, its)"])
  show "for_range k 0 (secant_body kind f tol) (x0, x1, None, []) = Continue (y0, y1, y2, its)"
    by (rule assms(1))
  show "secant_body kind f tol k (y0, y1, y2, its)
      = (case kind of PyFloat \<Rightarrow> Raise ZeroDivisionError | NumpyFloat \<Rightarrow> NonFinite)"
    using assms(3) by (rule secant_body_zero)
  show "k < nat max_iter" by (rule assms(2))
qed

lemma newton_raphson_zero_denominator:
  assumes "for_range k 0 (newton_raphson_body kind f df tol) (x0, None, []) = Continue (z0, z1, its)"
      and "k < nat max_iter" and "df z0 = 0"
  shows "newton_raphson kind f df x0 tol max_iter
       = (case kind of PyFloat \<Rightarrow> Raised ZeroDivisionError | NumpyFloat \<Rightarrow> Non_finite)"
  unfolding newton_raphson_def
proof (rule run_loop_zero [where k = k and t = "(z0, z1, its)"])
  show "for_range k 0 (newton_raphson_body kind f df tol) (x0, None, []) = Continue (z0, z1, its)"
    by (rule assms(1))
  show "newton_raphson_body kind f df tol k (z0, z1, its)
      = (case kind of PyFloat \<Rightarrow> Raise ZeroDivisionError | NumpyFloat \<Rightarrow> NonFinite)"
    using assms(3) by (rule newton_raphson_body_zero)
  show "k < nat max_iter" by (rule assms(2))
qed

lemma modified_secant_zero_denominator:
  assumes "for_range k 0 (modified_secant_body kind f delta tol) (x0, None, []) = Continue (z0, z1, its)"
      and "k < nat max_iter" and "f (z0 + delta * z0) - f z0 = 0"
  shows "modified_secant kind f x0 delta tol max_iter
       = (case kind of PyFloat \<Rightarrow> Raised ZeroDivisionError | NumpyFloat \<Rightarrow> Non_finite)"
  unfolding modified_secant_def
proof (rule run_loop_zero [where k = k and t = "(z0, z1, its)"])
  show "for_range k 0 (modified_secant_body kind f delta tol) (x0, None, []) = Continue (z0, z1, its)"
    by (rule assms(1))
  show "modified_secant_body kind f delta tol k (z0, z1, its)
      = (case kind of PyFloat \<Rightarrow> Raise ZeroDivisionError | NumpyFloat \<Rightarrow> NonFinite)"
    using assms(3) by (rule modified_secant_body_zero)
  show "k < nat max_iter" by (rule assms(2))
qed

lemma example_secant_loop:
  "for_range 1 0 (secant_body PyFloat (\<lambda>x. (x - 1)\<^sup>2) (1 / 1000000)) (0, 3, None, [])
     = Continue (3, - 1, Some (- 1), [(1, - 1, 4, 4)])"
  by (simp add: py_div_def Let_def power2_eq_square)

lemma example_secant_start:
  "for_range 0 0 (secant_body NumpyFloat cos (1 / 1000000)) (- 1, 1, None, []) = Continue (- 1, 1, None, [])"
  by simp

text \<open>
  C7 claims that at every step of secant at which \<open>f x1 = f x0\<close> the method fails with
  a division-by-zero error and produces no result. That depends on the float type of
  the function values. For the expression \<^verbatim>\<open>np.cos(x)\<close> from the guesses -1 and 1 the
  two values are equal \<^verbatim>\<open>numpy.float64\<close> numbers: the division of the first pass raises
  nothing, the estimate becomes an infinity, and the call does not end in
  \<^verbatim>\<open>ZeroDivisionError\<close>.
\<close>

theorem secant_numpy_no_raise_counterexample:
  "cos (1::real) = cos (- 1)
 \<and> secant_body NumpyFloat cos (1 / 1000000) 0 (- 1, 1, None, []) = NonFinite
 \<and> secant NumpyFloat cos (- 1) 1 (1 / 1000000) 100 = Non_finite
 \<and> secant NumpyFloat cos (- 1) 1 (1 / 1000000) 100 \<noteq> Raised ZeroDivisionError"
proof -
  have eq: "cos (1::real) - cos (- 1) = 0" by simp
  have body: "secant_body NumpyFloat cos (1 / 1000000) 0 (- 1, 1, None, []) = NonFinite"
    by (simp add: py_div_def)
  have k: "0 < nat 100" by simp
  have call: "secant NumpyFloat cos (- 1) 1 (1 / 1000000) 100 = Non_finite"
    using secant_zero_denominator [where kind = NumpyFloat and f = cos and tol = "1 / 1000000"
        and ?x0.0 = "- 1" and ?x1.0 = 1 and k = 0 and ?y0.0 = "- 1" and ?y1.0 = 1 and ?y2.0 = None
        and its = "[]" and max_iter = 100, OF example_secant_start k eq]
    by simp
  have ne: "secant NumpyFloat cos (- 1) 1 (1 / 1000000) 100 \<noteq> Raised ZeroDivisionError"
    unfolding call by simp
  have "cos (1::real) = cos (- 1)" by simp
  from this body call ne show ?thesis by (intro conjI)
qed

text \<open>
  C7 as amended, in exact arithmetic. Whatever the initial guesses, if the secant loop
  reaches a pass (the pass after \<open>k < max_iter\<close> passes that fell through) at which
  \<open>f x1 = f x0\<close>, then: when the function values are built-in floats, the division
  raises \<^verbatim>\<open>ZeroDivisionError\<close> at that pass and the exception leaves the function, so the
  call returns no triple at all; when they are \<^verbatim>\<open>numpy.float64\<close> values, the division
  raises nothing at that pass and the call goes on with an estimate that is an infinity
  or a NaN.
\<close>

theorem secant_equal_values:
  assumes "for_range k 0 (secant_body kind f tol) (x0, x1, None, []) = Continue (y0, y1, y2, its)"
      and "k < nat max_iter" and "f y1 = f y0"
  shows "secant_body kind f tol k (y0, y1, y2, its)
           = (case kind of PyFloat \<Rightarrow> Raise ZeroDivisionError | NumpyFloat \<Rightarrow> NonFinite)
       \<and> secant kind f x0 x1 tol max_iter
           = (case kind of PyFloat \<Rightarrow> Raised ZeroDivisionError | NumpyFloat \<Rightarrow> Non_finite)"
proof -
  from assms(3) have z: "f y1 - f y0 = 0" by simp
  have body: "secant_body kind f tol k (y0, y1, y2, its)
           = (case kind of PyFloat \<Rightarrow> Raise ZeroDivisionError | NumpyFloat \<Rightarrow> NonFinite)"
    using z by (rule secant_body_zero)
  have call: "secant kind f x0 x1 tol max_iter
           = (case kind of PyFloat \<Rightarrow> Raised ZeroDivisionError | NumpyFloat \<Rightarrow> Non_finite)"
    using assms(1,2) z by (rule secant_zero_denominator)
  from body call show ?thesis by (rule conjI)
qed

text \<open>
  Two runs: \<open>(x - 1)\<^sup>2\<close> on built-in floats from 0 and 3, where the first pass logs a
  row and the second pass divides by zero, and \<^verbatim>\<open>np.cos(x)\<close> from -1 and 1, where the
  first pass does.
\<close>

theorem secant_equal_values_witness:
  "for_range 1 0 (secant_body PyFloat (\<lambda>x. (x - 1)\<^sup>2) (1 / 1000000)) (0, 3, None, [])
     = Continue (3, - 1, Some (- 1), [(1, - 1, 4, 4)])
 \<and> 1 < nat 100 \<and> (- 1 - 1 :: real)\<^sup>2 = (3 - 1)\<^sup>2
 \<and> secant_body PyFloat (\<lambda>x. (x - 1)\<^sup>2) (1 / 1000000) 1 (3, - 1, Some (- 1), [(1, - 1, 4, 4)])
     = Raise ZeroDivisionError
 \<and> secant PyFloat (\<lambda>x. (x - 1)\<^sup>2) 0 3 (1 / 1000000) 100 = Raised ZeroDivisionError
 \<and> for_range 0 0 (secant_body NumpyFloat cos (1 / 1000000)) (- 1, 1, None, []) = Continue (- 1, 1, None, [])
 \<and> 0 < nat 100 \<and> cos (1::real) = cos (- 1)
 \<and> secant_body NumpyFloat cos (1 / 1000000) 0 (- 1, 1, None, []) = NonFinite
 \<and> secant NumpyFloat cos (- 1) 1 (1 / 1000000) 100 = Non_finite"
proof -
  have k0: "0 < nat 100" and k1: "1 < nat 100" by simp_all
  have eq0: "cos (1::real) = cos (- 1)" by simp
  have eq1: "(- 1 - 1 :: real)\<^sup>2 = (3 - 1)\<^sup>2" by simp
  note py = secant_equal_values [where kind = PyFloat and f = "\<lambda>x. (x - 1)\<^sup>2" and tol = "1 / 1000000"
      and ?x0.0 = 0 and ?x1.0 = 3 and k = 1 and ?y0.0 = 3 and ?y1.0 = "- 1" and ?y2.0 = "Some (- 1)"
      and its = "[(1, - 1, 4, 4)]" and max_iter = 100, OF example_secant_loop k1 eq1]
  note np = secant_equal_values [where kind = NumpyFloat and f = cos and tol = "1 / 1000000"
      and ?x0.0 = "- 1" and ?x1.0 = 1 and k = 0 and ?y0.0 = "- 1" and ?y1.0 = 1 and ?y2.0 = None
      and its = "[]" and max_iter = 100, OF example_secant_start k0 eq0]
  from py have 1: "secant_body PyFloat (\<lambda>x. (x - 1)\<^sup>2) (1 / 1000000) 1 (3, - 1, Some (- 1), [(1, - 1, 4, 4)])
     = Raise ZeroDivisionError"
    and 2: "secant PyFloat (\<lambda>x. (x - 1)\<^sup>2) 0 3 (1 / 1000000) 100 = Raised ZeroDivisionError"
    by simp_all
  from np have 3: "secant_body NumpyFloat cos (1 / 1000000) 0 (- 1, 1, None, []) = NonFinite"
    and 4: "secant NumpyFloat cos (- 1) 1 (1 / 1000000) 100 = Non_finite"
    by simp_all
  from example_secant_loop k1 eq1 1 2 example_secant_start k0 eq0 3 4 show ?thesis by (intro conjI)
qed

text \<open>
  C8 claims that a division by zero in the middle of a run aborts the loop but keeps the
  log accumulated so far, and reaches the caller as a structured outcome instead of
  ending the process. The code has no exception handler: on \<open>(x - 1)\<^sup>2\<close> from 0 and 3,
  with built-in floats, the secant loop has logged one row when its second pass raises,
  the call yields the exception alone, and the command-line entry point ends with that
  exception.
\<close>

theorem zero_division_loses_log_counterexample:
  "for_range 1 0 (secant_body PyFloat (\<lambda>x. (x - 1)\<^sup>2) (1 / 1000000)) (0, 3, None, [])
     = Continue (3, - 1, Some (- 1), [(1, - 1, 4, 4)])
 \<and> secant_body PyFloat (\<lambda>x. (x - 1)\<^sup>2) (1 / 1000000) 1 (3, - 1, Some (- 1), [(1, - 1, 4, 4)])
     = Raise ZeroDivisionError
 \<and> secant PyFloat (\<lambda>x. (x - 1)\<^sup>2) 0 3 (1 / 1000000) 100 = Raised ZeroDivisionError
 \<and> main_block PyFloat \<lparr>args_method = ''secant'', args_expression = (\<lambda>x. (x - 1)\<^sup>2), args_params = [0, 3],
      args_tol = 1 / 1000000, args_max_iter = 100, args_delta = 1 / 1000000, args_df = None, args_g = None\<rparr>
     = ([], Raised ZeroDivisionError)"
proof -
  have z: "(- 1 - 1 :: real)\<^sup>2 - (3 - 1)\<^sup>2 = 0" by simp
  have body: "secant_body PyFloat (\<lambda>x. (x - 1)\<^sup>2) (1 / 1000000) 1 (3, - 1, Some (- 1), [(1, - 1, 4, 4)])
     = Raise ZeroDivisionError"
    by (simp add: py_div_def)
  have k: "1 < nat 100" by simp
  have call: "secant PyFloat (\<lambda>x. (x - 1)\<^sup>2) 0 3 (1 / 1000000) 100 = Raised ZeroDivisionError"
    using secant_zero_denominator [where kind = PyFloat and f = "\<lambda>x. (x - 1)\<^sup>2" and tol = "1 / 1000000"
        and ?x0.0 = 0 and ?x1.0 = 3 and k = 1 and ?y0.0 = 3 and ?y1.0 = "- 1" and ?y2.0 = "Some (- 1)"
        and its = "[(1, - 1, 4, 4)]" and max_iter = 100, OF example_secant_loop k z]
    by simp
  have "main_block PyFloat \<lparr>args_method = ''secant'', args_expression = (\<lambda>x. (x - 1)\<^sup>2), args_params = [0, 3],
      args_tol = 1 / 1000000, args_max_iter = 100, args_delta = 1 / 1000000, args_df = None, args_g = None\<rparr>
     = ([], Raised ZeroDivisionError)"
    by (simp add: main_block_def call)
  with example_secant_loop body call show ?thesis by (intro conjI)
qed

text \<open>
  C8 as amended, in exact arithmetic. In secant, Newton-Raphson and modified secant, a
  zero denominator at a pass that is reached has one of two effects, whatever rows the
  log holds at that point. On built-in floats it aborts the loop by raising
  \<^verbatim>\<open>ZeroDivisionError\<close> out of the method: the call yields the exception and no triple,
  so the log is lost, and the command-line entry point passes the exception on
  uncaught. On \<^verbatim>\<open>numpy.float64\<close> values nothing is raised and nothing aborts: the estimate
  becomes an infinity or a NaN and the run goes on, in the method and in the entry
  point alike.
\<close>

theorem zero_denominator_outcome:
  "(for_range k 0 (secant_body kind f tol) (x0, x1, None, []) = Continue (y0, y1, y2, its)
      \<and> k < nat max_iter \<and> f y1 - f y0 = 0
    \<longrightarrow> secant kind f x0 x1 tol max_iter
          = (case kind of PyFloat \<Rightarrow> Raised ZeroDivisionError | NumpyFloat \<Rightarrow> Non_finite)
      \<and> main_block kind \<lparr>args_method = ''secant'', args_expression = f, args_params = [x0, x1],
           args_tol = tol, args_max_iter = max_iter, args_delta = delta, args_df = odf, args_g = og\<rparr>
          = ([], case kind of PyFloat \<Rightarrow> Raised ZeroDivisionError | NumpyFloat \<Rightarrow> Non_finite))
 \<and> (for_range k 0 (newton_raphson_body kind f df tol) (x0, None, []) = Continue (z0, z1, its)
      \<and> k < nat max_iter \<and> df z0 = 0
    \<longrightarrow> newton_raphson kind f df x0 tol max_iter
          = (case kind of PyFloat \<Rightarrow> Raised ZeroDivisionError | NumpyFloat \<Rightarrow> Non_finite)
      \<and> main_block kind \<lparr>args_method = ''newton_raphson'', args_expression = f, args_params = [x0],
           args_tol = tol, args_max_iter = max_iter, args_delta = delta, args_df = Some df, args_g = og\<rparr>
          = ([], case kind of PyFloat \<Rightarrow> Raised ZeroDivisionError | NumpyFloat \<Rightarrow> Non_finite))
 \<and> (for_range k 0 (modified_secant_body kind f delta tol) (x0, None, []) = Continue (z0, z1, its)
      \<and> k < nat max_iter \<and> f (z0 + delta * z0) - f z0 = 0
    \<longrightarrow> modified_secant kind f x0 delta tol max_iter
          = (case kind of PyFloat \<Rightarrow> Raised ZeroDivisionError | NumpyFloat \<Rightarrow> Non_finite)
      \<and> main_block kind \<lparr>args_method = ''modified_secant'', args_expression = f, args_params = [x0],
           args_tol = tol, args_max_iter = max_iter, args_delta = delta, args_df = odf, args_g = og\<rparr>
          = ([], case kind of PyFloat \<Rightarrow> Raised ZeroDivisionError | NumpyFloat \<Rightarrow> Non_finite))"
proof (intro conjI impI)
  assume h: "for_range k 0 (secant_body kind f tol) (x0, x1, None, []) = Continue (y0, y1, y2, its)
      \<and> k < nat max_iter \<and> f y1 - f y0 = 0"
  from h have r: "for_range k 0 (secant_body kind f tol) (x0, x1, None, []) = Continue (y0, y1, y2, its)"
    and k: "k < nat max_iter" and z: "f y1 - f y0 = 0" by simp_all
  show call: "secant kind f x0 x1 tol max_iter
          = (case kind of PyFloat \<Rightarrow> Raised ZeroDivisionError | NumpyFloat \<Rightarrow> Non_finite)"
    using r k z by (rule secant_zero_denominator)
  show "main_block kind \<lparr>args_method = ''secant'', args_expression = f, args_params = [x0, x1],
           args_tol = tol, args_max_iter = max_iter, args_delta = delta, args_df = odf, args_g = og\<rparr>
          = ([], case kind of PyFloat \<Rightarrow> Raised ZeroDivisionError | NumpyFloat \<Rightarrow> Non_finite)"
    by (simp add: main_block_def call)
next
  assume h: "for_range k 0 (newton_raphson_body kind f df tol) (x0, None, []) = Continue (z0, z1, its)
      \<and> k < nat max_iter \<and> df z0 = 0"
  from h have r: "for_range k 0 (newton_raphson_body kind f df tol) (x0, None, []) = Continue (z0, z1, its)"
    and k: "k < nat max_iter" and z: "df z0 = 0" by simp_all
  show call: "newton_raphson kind f df x0 tol max_iter
          = (case kind of PyFloat \<Rightarrow> Raised ZeroDivisionError | NumpyFloat \<Rightarrow> Non_finite)"
    using r k z by (rule newton_raphson_zero_denominator)
  show "main_block kind \<lparr>args_method = ''newton_raphson'', args_expression = f, args_params = [x0],
           args_tol = tol, args_max_iter = max_iter, args_delta = delta, args_df = Some df, args_g = og\<rparr>
          = ([], case kind of PyFloat \<Rightarrow> Raised ZeroDivisionError | NumpyFloat \<Rightarrow> Non_finite)"
    by (simp add: main_block_def call)
next
  assume h: "for_range k 0 (modified_secant_body kind f delta tol) (x0, None, []) = Continue (z0, z1, its)
      \<and> k < nat max_iter \<and> f (z0 + delta * z0) - f z0 = 0"
  from h have r: "for_range k 0 (modified_secant_body kind f delta tol) (x0, None, []) = Continue (z0, z1, its)"
    and k: "k < nat max_iter" and z: "f (z0 + delta * z0) - f z0 = 0" by simp_all
  show call: "modified_secant kind f x0 delta tol max_iter
          = (case kind of PyFloat \<Rightarrow> Raised ZeroDivisionError | NumpyFloat \<Rightarrow> Non_finite)"
    using r k z by (rule modified_secant_zero_denominator)
  show "main_block kind \<lparr>args_method = ''modified_secant'', args_expression = f, args_params = [x0],
           args_tol = tol, args_max_iter = max_iter, args_delta = delta, args_df = odf, args_g = og\<rparr>
          = ([], case kind of PyFloat \<Rightarrow> Raised ZeroDivisionError | NumpyFloat \<Rightarrow> Non_finite)"
    by (simp add: main_block_def call)
qed

lemma example_newton_raphson_loop:
  "for_range 1 0 (newton_raphson_body PyFloat (\<lambda>x. x\<^sup>2 - 2 * x + 2) (\<lambda>x. 2 * x - 2) (1 / 1000000)) (0, None, [])
     = Continue (1, Some 1, [(1, 1, 1, 1)])"
  by (simp add: py_div_def Let_def power2_eq_square)

lemma example_modified_secant_start:
  "for_range 0 0 (modified_secant_body NumpyFloat cos (1 / 1000000) (1 / 1000000)) (0, None, [])
     = Continue (0, None, [])"
  by simp

text \<open>
  One run of each method: secant and Newton-Raphson on built-in floats, whose second
  pass meets a zero denominator, and modified secant on \<^verbatim>\<open>np.cos(x)\<close> from 0, whose
  first pass does.
\<close>

theorem zero_denominator_outcome_witness:
  "for_range 1 0 (secant_body PyFloat (\<lambda>x. (x - 1)\<^sup>2) (1 / 1000000)) (0, 3, None, [])
     = Continue (3, - 1, Some (- 1), [(1, - 1, 4, 4)])
 \<and> secant PyFloat (\<lambda>x. (x - 1)\<^sup>2) 0 3 (1 / 1000000) 100 = Raised ZeroDivisionError
 \<and> for_range 1 0 (newton_raphson_body PyFloat (\<lambda>x. x\<^sup>2 - 2 * x + 2) (\<lambda>x. 2 * x - 2) (1 / 1000000)) (0, None, [])
     = Continue (1, Some 1, [(1, 1, 1, 1)])
 \<and> newton_raphson PyFloat (\<lambda>x. x\<^sup>2 - 2 * x + 2) (\<lambda>x. 2 * x - 2) 0 (1 / 1000000) 100 = Raised ZeroDivisionError
 \<and> main_block PyFloat \<lparr>args_method = ''newton_raphson'', args_expression = (\<lambda>x. x\<^sup>2 - 2 * x + 2),
      args_params = [0], args_tol = 1 / 1000000, args_max_iter = 100, args_delta = 1 / 1000000,
      args_df = Some (\<lambda>x. 2 * x - 2), args_g = None\<rparr> = ([], Raised ZeroDivisionError)
 \<and> for_range 0 0 (modified_secant_body NumpyFloat cos (1 / 1000000) (1 / 1000000)) (0, None, [])
     = Continue (0, None, [])
 \<and> modified_secant NumpyFloat cos 0 (1 / 1000000) (1 / 1000000) 100 = Non_finite
 \<and> main_block NumpyFloat \<lparr>args_method = ''modified_secant'', args_expression = cos,
      args_params = [0], args_tol = 1 / 1000000, args_max_iter = 100, args_delta = 1 / 1000000,
      args_df = None, args_g = None\<rparr> = ([], Non_finite)"
proof -
  have k0: "0 < nat 100" and k1: "1 < nat 100" by simp_all
  have z1: "(- 1 - 1 :: real)\<^sup>2 - (3 - 1)\<^sup>2 = 0" by simp
  have z2: "2 * (1::real) - 2 = 0" by simp
  have z3: "cos (0 + 1 / 1000000 * 0 :: real) - cos 0 = 0" by simp
  from example_secant_loop k1 z1
    zero_denominator_outcome [where kind = PyFloat and f = "\<lambda>x. (x - 1)\<^sup>2" and tol = "1 / 1000000"
      and ?x0.0 = 0 and ?x1.0 = 3 and k = 1 and ?y0.0 = 3 and ?y1.0 = "- 1" and ?y2.0 = "Some (- 1)"
      and its = "[(1, - 1, 4, 4)]" and max_iter = 100 and delta = "1 / 1000000" and odf = None
      and og = None and df = "\<lambda>x. x" and ?z0.0 = 0 and ?z1.0 = None, THEN conjunct1]
  have 1: "secant PyFloat (\<lambda>x. (x - 1)\<^sup>2) 0 3 (1 / 1000000) 100 = Raised ZeroDivisionError"
    by simp
  from example_newton_raphson_loop k1 z2
    zero_denominator_outcome [where kind = PyFloat and f = "\<lambda>x. x\<^sup>2 - 2 * x + 2"
      and df = "\<lambda>x. 2 * x - 2" and tol = "1 / 1000000" and ?x0.0 = 0 and k = 1 and ?z0.0 = 1
      and ?z1.0 = "Some 1" and its = "[(1, 1, 1, 1)]" and max_iter = 100 and delta = "1 / 1000000"
      and og = None and odf = None and ?x1.0 = 0 and ?y0.0 = 0 and ?y1.0 = 0 and ?y2.0 = None,
      THEN conjunct2, THEN conjunct1]
  have 2: "newton_raphson PyFloat (\<lambda>x. x\<^sup>2 - 2 * x + 2) (\<lambda>x. 2 * x - 2) 0 (1 / 1000000) 100
      = Raised ZeroDivisionError
    \<and> main_block PyFloat \<lparr>args_method = ''newton_raphson'', args_expression = (\<lambda>x. x\<^sup>2 - 2 * x + 2),
      args_params = [0], args_tol = 1 / 1000000, args_max_iter = 100, args_delta = 1 / 1000000,
      args_df = Some (\<lambda>x. 2 * x - 2), args_g = None\<rparr> = ([], Raised ZeroDivisionError)"
    by simp
  from example_modified_secant_start k0 z3
    zero_denominator_outcome [where kind = NumpyFloat and f = cos and delta = "1 / 1000000"
      and tol = "1 / 1000000" and ?x0.0 = 0 and k = 0 and ?z0.0 = 0 and ?z1.0 = None
      and its = "[]" and max_iter = 100 and df = "\<lambda>x. x" and og = None
      and odf = None and ?x1.0 = 0 and ?y0.0 = 0 and ?y1.0 = 0 and ?y2.0 = None,
      THEN conjunct2, THEN conjunct2]
  have 3: "modified_secant NumpyFloat cos 0 (1 / 1000000) (1 / 1000000) 100 = Non_finite
    \<and> main_block NumpyFloat \<lparr>args_method = ''modified_secant'', args_expression = cos,
      args_params = [0], args_tol = 1 / 1000000, args_max_iter = 100, args_delta = 1 / 1000000,
      args_df = None, args_g = None\<rparr> = ([], Non_finite)"
    by simp
  from 1 2 3 example_secant_loop example_newton_raphson_loop example_modified_secant_start
  show ?thesis by (intro conjI) simp_all
qed

text \<open>
  C9 claims that modified secant called with the initial guess 0 faults with a
  division-by-zero error on the first iteration, for every function. The denominator
  is zero for every function, but for the expression \<^verbatim>\<open>np.cos(x)\<close> it is a
  \<^verbatim>\<open>numpy.float64\<close> zero: the first pass computes 0 / 0, which raises nothing and gives a
  NaN, and the call does not end in \<^verbatim>\<open>ZeroDivisionError\<close>.
\<close>

theorem modified_secant_numpy_no_raise_counterexample:
  "cos (0 + 1 / 1000000 * 0 :: real) - cos 0 = 0
 \<and> modified_secant_body NumpyFloat cos (1 / 1000000) (1 / 1000000) 0 (0, None, []) = NonFinite
 \<and> modified_secant NumpyFloat cos 0 (1 / 1000000) (1 / 1000000) 100 = Non_finite
 \<and> modified_secant NumpyFloat cos 0 (1 / 1000000) (1 / 1000000) 100 \<noteq> Raised ZeroDivisionError"
proof -
  have z: "cos (0 + 1 / 1000000 * 0 :: real) - cos 0 = 0" by simp
  have body: "modified_secant_body NumpyFloat cos (1 / 1000000) (1 / 1000000) 0 (0, None, []) = NonFinite"
    by (simp add: py_div_def)
  have k: "0 < nat 100" by simp
  have call: "modified_secant NumpyFloat cos 0 (1 / 1000000) (1 / 1000000) 100 = Non_finite"
    using modified_secant_zero_denominator [where kind = NumpyFloat and f = cos and delta = "1 / 1000000"
        and tol = "1 / 1000000" and ?x0.0 = 0 and k = 0 and ?z0.0 = 0 and ?z1.0 = None and its = "[]"
        and max_iter = 100, OF example_modified_secant_start k z]
    by simp
  have ne: "modified_secant NumpyFloat cos 0 (1 / 1000000) (1 / 1000000) 100 \<noteq> Raised ZeroDivisionError"
    unfolding call by simp
  from z body call ne show ?thesis by (intro conjI)
qed

text \<open>
  C9 as amended, in exact arithmetic. With the initial guess 0 and at least one pass
  allowed (the specification's configuration has \<^verbatim>\<open>max_iter\<close> positive), for every
  \<open>f\<close>, \<open>delta\<close> and tolerance the perturbation \<open>delta * 0\<close> is zero and the denominator
  \<open>f (0 + delta * 0) - f 0\<close> is zero, and the first pass is the last one the model
  follows: on built-in floats it raises \<^verbatim>\<open>ZeroDivisionError\<close>, which leaves the function
  with no result; on \<^verbatim>\<open>numpy.float64\<close> values it raises nothing and the estimate becomes
  an infinity or a NaN.
\<close>

theorem modified_secant_zero_guess:
  assumes "1 \<le> max_iter"
  shows "delta * 0 = (0::real)
       \<and> f (0 + delta * 0) - f 0 = 0
       \<and> passes (nat max_iter) 0 (modified_secant_body kind f delta tol) (0, None, []) = 1
       \<and> modified_secant kind f 0 delta tol max_iter
           = (case kind of PyFloat \<Rightarrow> Raised ZeroDivisionError | NumpyFloat \<Rightarrow> Non_finite)"
proof -
  from assms have pos: "0 < nat max_iter" by simp
  have z: "f (0 + delta * 0) - f 0 = 0" by simp
  have start: "for_range 0 0 (modified_secant_body kind f delta tol) (0, None, []) = Continue (0, None, [])"
    by simp
  have call: "modified_secant kind f 0 delta tol max_iter
           = (case kind of PyFloat \<Rightarrow> Raised ZeroDivisionError | NumpyFloat \<Rightarrow> Non_finite)"
    using start pos z by (rule modified_secant_zero_denominator)
  from pos obtain m where m: "nat max_iter = Suc m" by (cases "nat max_iter") simp_all
  have count: "passes (nat max_iter) 0 (modified_secant_body kind f delta tol) (0, None, []) = 1"
    unfolding m by (cases kind) (simp_all add: py_div_def)
  have "delta * 0 = (0::real)" by simp
  with z count call show ?thesis by blast
qed

text \<open>
  The defaults of the command line on \<open>x\<^sup>2 - 2\<close> with built-in floats, and on
  \<^verbatim>\<open>np.cos(x)\<close>.
\<close>

theorem modified_secant_zero_guess_witness:
  "(1::int) \<le> 100
 \<and> passes (nat 100) 0 (modified_secant_body PyFloat (\<lambda>x. x\<^sup>2 - 2) (1 / 1000000) (1 / 1000000)) (0, None, []) = 1
 \<and> modified_secant PyFloat (\<lambda>x. x\<^sup>2 - 2) 0 (1 / 1000000) (1 / 1000000) 100 = Raised ZeroDivisionError
 \<and> modified_secant NumpyFloat cos 0 (1 / 1000000) (1 / 1000000) 100 = Non_finite"
proof -
  have h: "(1::int) \<le> 100" by simp
  note py = modified_secant_zero_guess [OF h, where kind = PyFloat and f = "\<lambda>x. x\<^sup>2 - 2"
      and delta = "1 / 1000000" and tol = "1 / 1000000"]
  note np = modified_secant_zero_guess [OF h, where kind = NumpyFloat and f = cos
      and delta = "1 / 1000000" and tol = "1 / 1000000"]
  from py have 1: "passes (nat 100) 0 (modified_secant_body PyFloat (\<lambda>x. x\<^sup>2 - 2) (1 / 1000000) (1 / 1000000)) (0, None, []) = 1"
    and 2: "modified_secant PyFloat (\<lambda>x. x\<^sup>2 - 2) 0 (1 / 1000000) (1 / 1000000) 100 = Raised ZeroDivisionError"
    by simp_all
  from np have 3: "modified_secant NumpyFloat cos 0 (1 / 1000000) (1 / 1000000) 100 = Non_finite"
    by simp
  from h 1 2 3 show ?thesis by (intro conjI)
qed

end
